theory Spec2Isabelle
  imports Complex_Main "HOL-Library.Word" "HOL-Library.AList"
begin

unbundle bit_operations_syntax

section \<open>Errors\<close>

text \<open>
  The program raises three sorts of exception: the plain \<open>Error\<close> that \<open>safe\<close>
  throws, with its message; the system errors with which the calls of \<open>node:fs\<close>
  reject, told apart by their \<open>code\<close>; and the \<open>TypeError\<close> (its code is
  \<open>ERR_INVALID_ARG_TYPE\<close>) of \<open>Buffer.from\<close> when what it is given is not a
  string. Parameter validation (zod) rejects with a \<open>ZodError\<close>.
  An executor is an \<open>async\<close> function: an exception thrown inside it rejects the promise
  it returns. A rejected promise is the left injection of a sum, a fulfilled one the
  right injection.
\<close>

datatype errcode =
  ENOENT | ENOTDIR | EISDIR | EEXIST | ENOTEMPTY | EINVAL | EBUSY | ENXIO | ERR_FS_EISDIR

datatype error =
  Error string
  | TypeError string
  | SystemError errcode
  | ZodError string

section \<open>Paths (\<open>node:path\<close>, POSIX flavour)\<close>

text \<open>
  Path strings are lists of characters. The path functions only ever compare a
  character with the separator \<open>/\<close> and with the dot.
\<close>

definition startsWith :: "string \<Rightarrow> string \<Rightarrow> bool" where
  "startsWith s p = (take (length p) s = p)"

fun split_sep :: "string \<Rightarrow> string list" where
  "split_sep [] = [[]]"
| "split_sep (c # cs) =
     (if c = CHR ''/'' then [] # split_sep cs
      else (case split_sep cs of [] \<Rightarrow> [[c]] | s # ss \<Rightarrow> (c # s) # ss))"

fun join_sep :: "string list \<Rightarrow> string" where
  "join_sep [] = []"
| "join_sep [s] = s"
| "join_sep (s # ss) = s @ CHR ''/'' # join_sep ss"

text \<open>
  \<open>normalizeString\<close> of \<open>node:path\<close>, read segment by segment. The accumulator holds
  the segments kept so far, the last one first. An empty segment and \<open>.\<close> are dropped;
  \<open>..\<close> removes the last kept segment unless there is none or it is itself \<open>..\<close>, and
  then it is kept only when \<open>allowAboveRoot\<close> holds.
\<close>

fun normalize_segs :: "bool \<Rightarrow> string list \<Rightarrow> string list \<Rightarrow> string list" where
  "normalize_segs allowAboveRoot acc [] = rev acc"
| "normalize_segs allowAboveRoot acc (s # ss) =
     (if s = [] \<or> s = ''.'' then normalize_segs allowAboveRoot acc ss
      else if s = ''..'' then
        (case acc of
           [] \<Rightarrow> normalize_segs allowAboveRoot (if allowAboveRoot then [''..''] else []) ss
         | a # as \<Rightarrow>
             if a = ''..''
             then normalize_segs allowAboveRoot (if allowAboveRoot then ''..'' # acc else acc) ss
             else normalize_segs allowAboveRoot as ss)
      else normalize_segs allowAboveRoot (s # acc) ss)"

definition normalizeString :: "string \<Rightarrow> bool \<Rightarrow> string" where
  "normalizeString p allowAboveRoot = join_sep (normalize_segs allowAboveRoot [] (split_sep p))"

definition isAbsolute :: "string \<Rightarrow> bool" where
  "isAbsolute p = (case p of [] \<Rightarrow> False | c # _ \<Rightarrow> c = CHR ''/'')"

text \<open>
  \<open>path.resolve(...args)\<close>: the arguments are taken from the right, empty ones are
  skipped, each is put in front of what has been gathered, and the walk stops at the
  first absolute one; the working directory is the argument before the first.
\<close>

fun resolve_gather :: "string list \<Rightarrow> string" where
  "resolve_gather [] = []"
| "resolve_gather (p # ps) =
     (let r = resolve_gather ps in
      if isAbsolute r then r
      else if p = [] then r
      else p @ CHR ''/'' # r)"

definition path_resolve :: "string \<Rightarrow> string list \<Rightarrow> string" where
  "path_resolve cwd args =
     (let r = resolve_gather (cwd # args) in
      if isAbsolute r then CHR ''/'' # normalizeString r False
      else (let n = normalizeString r True in if n = [] then ''.'' else n))"

section \<open>The root and the path resolver\<close>

record process =
  cwd :: string
  FS_ROOT :: "string option"

text \<open>\<open>const ROOT = path.resolve(process.env.FS_ROOT ?? process.cwd())\<close>\<close>

definition ROOT :: "process \<Rightarrow> string" where
  "ROOT pr = path_resolve (cwd pr) [case FS_ROOT pr of None \<Rightarrow> cwd pr | Some r \<Rightarrow> r]"

definition safe :: "process \<Rightarrow> string \<Rightarrow> error + string" where
  "safe pr rel =
     (let absp = path_resolve (cwd pr) [ROOT pr, rel] in
      if \<not> startsWith absp (ROOT pr) then Inl (Error ''Path escapes project root'')
      else Inr absp)"

text \<open>
  \<open>path.normalize\<close>, \<open>path.join\<close> and \<open>path.basename\<close> (without the optional
  suffix), which \<open>ls\<close> and \<open>statEntry\<close> use.
\<close>

definition path_normalize :: "string \<Rightarrow> string" where
  "path_normalize p =
     (if p = [] then ''.''
      else
        (let isAbs = isAbsolute p;
             trailingSeparator = (last p = CHR ''/'');
             q = normalizeString p (\<not> isAbs)
         in if q = [] then (if isAbs then ''/'' else if trailingSeparator then ''./'' else ''.'')
            else (if isAbs then ''/'' else []) @ q @ (if trailingSeparator then ''/'' else [])))"

definition path_join :: "string list \<Rightarrow> string" where
  "path_join args =
     (let joined = join_sep (filter (\<lambda>a. a \<noteq> []) args)
      in if joined = [] then ''.'' else path_normalize joined)"

fun strip_trailing_sep :: "string \<Rightarrow> string" where
  "strip_trailing_sep [] = []"
| "strip_trailing_sep (c # cs) =
     (let r = strip_trailing_sep cs in if r = [] \<and> c = CHR ''/'' then [] else c # r)"

definition basename :: "string \<Rightarrow> string" where
  "basename p = last (split_sep (strip_trailing_sep p))"

section \<open>The file system (\<open>node:fs\<close> promises over a POSIX tree)\<close>

text \<open>
  The state the program acts on is the real file system. It is modelled as the tree
  under \<open>/\<close>: a regular file holds its bytes and its modification time, a directory
  its entries in enumeration order, a size as the system reports it and a modification
  time, and \<open>Other\<close> is a node that is neither (a socket: it can be looked at with
  \<open>stat\<close> but not opened). There are no symbolic links and no permissions in this
  model. Times are JavaScript numbers in milliseconds; they are carried along and no
  arithmetic is done on them.

  The calls that change the tree take what the system supplies at the moment of the
  call: the time \<open>now\<close>, and the size it gives a fresh directory.
\<close>

type_synonym byte = "8 word"

datatype node =
  File "byte list" real
  | Dir "(string \<times> node) list" nat real
  | Other nat real

record sys =
  now :: real
  dir_size :: nat

text \<open>
  The system walks a path component by component. The paths the program passes are
  results of \<open>path.resolve\<close> and \<open>path.join\<close>: absolute, normalised, so without
  \<open>.\<close> and \<open>..\<close> components.
\<close>

definition components :: "string \<Rightarrow> string list" where
  "components p = filter (\<lambda>s. s \<noteq> []) (split_sep p)"

fun walk :: "node \<Rightarrow> string list \<Rightarrow> errcode + node" where
  "walk n [] = Inr n"
| "walk (Dir es sz mt) (s # ss) =
     (case map_of es s of None \<Rightarrow> Inl ENOENT | Some c \<Rightarrow> walk c ss)"
| "walk n (s # ss) = Inl ENOTDIR"

record stats =
  isFile :: bool
  isDirectory :: bool
  st_size :: nat
  st_mtimeMs :: real

fun stats_of :: "node \<Rightarrow> stats" where
  "stats_of (File bs mt) =
     \<lparr>isFile = True, isDirectory = False, st_size = length bs, st_mtimeMs = mt\<rparr>"
| "stats_of (Dir es sz mt) =
     \<lparr>isFile = False, isDirectory = True, st_size = sz, st_mtimeMs = mt\<rparr>"
| "stats_of (Other sz mt) =
     \<lparr>isFile = False, isDirectory = False, st_size = sz, st_mtimeMs = mt\<rparr>"

definition fs_stat :: "node \<Rightarrow> string \<Rightarrow> errcode + stats" where
  "fs_stat fs p = (case walk fs (components p) of Inl e \<Rightarrow> Inl e | Inr n \<Rightarrow> Inr (stats_of n))"

definition fs_readdir :: "node \<Rightarrow> string \<Rightarrow> errcode + string list" where
  "fs_readdir fs p =
     (case walk fs (components p) of
        Inl e \<Rightarrow> Inl e
      | Inr (Dir es sz mt) \<Rightarrow> Inr (map fst es)
      | Inr _ \<Rightarrow> Inl ENOTDIR)"

definition fs_readFile :: "node \<Rightarrow> string \<Rightarrow> errcode + byte list" where
  "fs_readFile fs p =
     (case walk fs (components p) of
        Inl e \<Rightarrow> Inl e
      | Inr (File bs mt) \<Rightarrow> Inr bs
      | Inr (Dir es sz mt) \<Rightarrow> Inl EISDIR
      | Inr (Other sz mt) \<Rightarrow> Inl ENXIO)"

text \<open>
  \<open>alter f t p n\<close> changes the entry that the path \<open>p\<close> names inside the tree
  \<open>n\<close>: \<open>f\<close> sees the entry (or that there is none) and answers with an error, with
  the entry to put there, or with \<open>None\<close> for removing it. The directory that holds
  the entry gets the time \<open>t\<close> when an entry is added or removed. The root itself has
  no entry: the callers treat the empty path themselves.
\<close>

fun alter :: "(node option \<Rightarrow> errcode + node option) \<Rightarrow> real \<Rightarrow> string list \<Rightarrow> node
    \<Rightarrow> errcode + node" where
  "alter f t [] n = Inl EBUSY"
| "alter f t [s] (Dir es sz mt) =
     (case f (map_of es s) of
        Inl e \<Rightarrow> Inl e
      | Inr None \<Rightarrow>
          (if map_of es s = None then Inr (Dir es sz mt)
           else Inr (Dir (AList.delete s es) sz t))
      | Inr (Some c) \<Rightarrow>
          Inr (Dir (AList.update s c es) sz (if map_of es s = None then t else mt)))"
| "alter f t (s # ss) (Dir es sz mt) =
     (case map_of es s of
        None \<Rightarrow> Inl ENOENT
      | Some c \<Rightarrow>
          (case alter f t ss c of
             Inl e \<Rightarrow> Inl e
           | Inr c' \<Rightarrow> Inr (Dir (AList.update s c' es) sz mt)))"
| "alter f t (s # ss) n = Inl ENOTDIR"

text \<open>\<open>fs.writeFile(path, buf, {flag})\<close> with the flags \<open>w\<close> (truncate) and \<open>a\<close> (append).\<close>

definition write_entry :: "sys \<Rightarrow> byte list \<Rightarrow> bool \<Rightarrow> node option \<Rightarrow> errcode + node option" where
  "write_entry sy buf app e =
     (case e of
        None \<Rightarrow> Inr (Some (File buf (now sy)))
      | Some (File bs mt) \<Rightarrow> Inr (Some (File (if app then bs @ buf else buf) (now sy)))
      | Some (Dir es sz mt) \<Rightarrow> Inl EISDIR
      | Some (Other sz mt) \<Rightarrow> Inl ENXIO)"

definition fs_writeFile :: "sys \<Rightarrow> string \<Rightarrow> byte list \<Rightarrow> bool \<Rightarrow> node \<Rightarrow> errcode + node" where
  "fs_writeFile sy p buf app fs =
     (case components p of
        [] \<Rightarrow> (case fs of Dir es sz mt \<Rightarrow> Inl EISDIR | _ \<Rightarrow> Inl ENXIO)
      | s # ss \<Rightarrow> alter (write_entry sy buf app) (now sy) (s # ss) fs)"

text \<open>
  \<open>fs.mkdir(path, {recursive})\<close>. Without \<open>recursive\<close> it is \<open>mkdir(2)\<close>: the parent
  must be there and the name must be free. With it, every missing directory on the way
  is made, the directories that exist are passed through, and a target that is already
  a directory is left as it is.
\<close>

definition mkdir_entry :: "sys \<Rightarrow> node option \<Rightarrow> errcode + node option" where
  "mkdir_entry sy e =
     (case e of None \<Rightarrow> Inr (Some (Dir [] (dir_size sy) (now sy))) | Some n \<Rightarrow> Inl EEXIST)"

fun mkdirp :: "sys \<Rightarrow> string list \<Rightarrow> node \<Rightarrow> errcode + node" where
  "mkdirp sy [] (Dir es sz mt) = Inr (Dir es sz mt)"
| "mkdirp sy [] n = Inl EEXIST"
| "mkdirp sy (s # ss) (Dir es sz mt) =
     (case map_of es s of
        None \<Rightarrow>
          (case mkdirp sy ss (Dir [] (dir_size sy) (now sy)) of
             Inl e \<Rightarrow> Inl e
           | Inr c \<Rightarrow> Inr (Dir (es @ [(s, c)]) sz (now sy)))
      | Some c \<Rightarrow>
          (case mkdirp sy ss c of
             Inl e \<Rightarrow> Inl e
           | Inr c' \<Rightarrow> Inr (Dir (AList.update s c' es) sz mt)))"
| "mkdirp sy (s # ss) n = Inl ENOTDIR"

definition fs_mkdir :: "sys \<Rightarrow> string \<Rightarrow> bool \<Rightarrow> node \<Rightarrow> errcode + node" where
  "fs_mkdir sy p recursive fs =
     (if recursive then mkdirp sy (components p) fs
      else
        (case components p of
           [] \<Rightarrow> Inl EEXIST
         | s # ss \<Rightarrow> alter (mkdir_entry sy) (now sy) (s # ss) fs))"

text \<open>\<open>fs.unlink(path)\<close> removes a name that is not a directory.\<close>

definition unlink_entry :: "node option \<Rightarrow> errcode + node option" where
  "unlink_entry e =
     (case e of
        None \<Rightarrow> Inl ENOENT
      | Some (Dir es sz mt) \<Rightarrow> Inl EISDIR
      | Some n \<Rightarrow> Inr None)"

definition fs_unlink :: "sys \<Rightarrow> string \<Rightarrow> node \<Rightarrow> errcode + node" where
  "fs_unlink sy p fs =
     (case components p of
        [] \<Rightarrow> Inl EISDIR
      | s # ss \<Rightarrow> alter unlink_entry (now sy) (s # ss) fs)"

text \<open>
  \<open>fs.rm(path, {recursive, force: true})\<close>. Node looks at the path first: one that
  is missing is no error under \<open>force\<close>, and a directory without \<open>recursive\<close> is refused
  with \<open>ERR_FS_EISDIR\<close> (``Path is a directory''), whether it is empty or not. With
  \<open>recursive\<close> the whole subtree goes. The result carries the tree as well as the
  error, because removing the root empties it before the last step fails.
\<close>

definition rm_entry :: "node option \<Rightarrow> errcode + node option" where
  "rm_entry e = Inr None"

definition fs_rm :: "sys \<Rightarrow> string \<Rightarrow> bool \<Rightarrow> node \<Rightarrow> errcode option \<times> node" where
  "fs_rm sy p recursive fs =
     (case walk fs (components p) of
        Inl e \<Rightarrow> (if e = ENOENT then (None, fs) else (Some e, fs))
      | Inr n \<Rightarrow>
          if isDirectory (stats_of n) \<and> \<not> recursive then (Some ERR_FS_EISDIR, fs)
          else
            (case components p of
               [] \<Rightarrow>
                 (case fs of
                    Dir es sz mt \<Rightarrow> (Some EBUSY, Dir [] sz (if es = [] then mt else now sy))
                  | _ \<Rightarrow> (Some EBUSY, fs))
             | s # ss \<Rightarrow>
                 (case alter rm_entry (now sy) (s # ss) fs of
                    Inl e \<Rightarrow> (Some e, fs)
                  | Inr fs' \<Rightarrow> (None, fs'))))"

text \<open>
  \<open>fs.rename(from, to)\<close> is \<open>rename(2)\<close>: the source must exist; a directory cannot
  be moved below itself; a file replaces a file, a directory replaces an empty
  directory; the two names being the same path, nothing happens.
\<close>

definition rename_entry :: "node \<Rightarrow> node option \<Rightarrow> errcode + node option" where
  "rename_entry src e =
     (case e of
        None \<Rightarrow> Inr (Some src)
      | Some (Dir es sz mt) \<Rightarrow>
          (if \<not> isDirectory (stats_of src) then Inl EISDIR
           else if es \<noteq> [] then Inl ENOTEMPTY
           else Inr (Some src))
      | Some n \<Rightarrow> (if isDirectory (stats_of src) then Inl ENOTDIR else Inr (Some src)))"

definition is_prefix :: "string list \<Rightarrow> string list \<Rightarrow> bool" where
  "is_prefix xs ys = (take (length xs) ys = xs)"

definition fs_rename :: "sys \<Rightarrow> string \<Rightarrow> string \<Rightarrow> node \<Rightarrow> errcode + node" where
  "fs_rename sy from to fs =
     (let f = components from; t = components to in
      case walk fs f of
        Inl e \<Rightarrow> Inl e
      | Inr src \<Rightarrow>
          if f = t then Inr fs
          else if f = [] \<or> t = [] then Inl EBUSY
          else if is_prefix f t then Inl EINVAL
          else
            (case alter (rename_entry src) (now sy) t fs of
               Inl e \<Rightarrow> Inl e
             | Inr fs' \<Rightarrow> alter rm_entry (now sy) f fs'))"

section \<open>Buffers and strings\<close>

text \<open>
  A JavaScript string is a sequence of UTF-16 code units, and that is what the payload
  of \<open>writeFile\<close> and the text of \<open>readFile\<close> are here: the UTF-8 encoder of
  \<open>Buffer.from\<close> depends on how surrogates pair up. \<open>jsstr\<close> turns a literal into such
  a string.
\<close>

type_synonym jsstring = "16 word list"

definition jsstr :: "string \<Rightarrow> jsstring" where
  "jsstr s = map (\<lambda>c. of_nat (of_char c)) s"

text \<open>
  \<open>Buffer.from(data, 'utf8')\<close>: a high surrogate followed by a low one is one code
  point, a surrogate on its own becomes U+FFFD, and each code point is written in one
  to four bytes.
\<close>

fun code_points :: "nat list \<Rightarrow> nat list" where
  "code_points [] = []"
| "code_points [u] = [if 0xD800 \<le> u \<and> u \<le> 0xDFFF then 0xFFFD else u]"
| "code_points (u # v # us) =
     (if 0xD800 \<le> u \<and> u \<le> 0xDBFF \<and> 0xDC00 \<le> v \<and> v \<le> 0xDFFF
      then (0x10000 + (u - 0xD800) * 0x400 + (v - 0xDC00)) # code_points us
      else (if 0xD800 \<le> u \<and> u \<le> 0xDFFF then 0xFFFD else u) # code_points (v # us))"

definition utf8_bytes :: "nat \<Rightarrow> nat list" where
  "utf8_bytes c =
     (if c < 0x80 then [c]
      else if c < 0x800 then [0xC0 + c div 0x40, 0x80 + c mod 0x40]
      else if c < 0x10000 then [0xE0 + c div 0x1000, 0x80 + c div 0x40 mod 0x40, 0x80 + c mod 0x40]
      else [0xF0 + c div 0x40000, 0x80 + c div 0x1000 mod 0x40, 0x80 + c div 0x40 mod 0x40,
            0x80 + c mod 0x40])"

definition Buffer_from_utf8 :: "jsstring \<Rightarrow> byte list" where
  "Buffer_from_utf8 data = map of_nat (concat (map utf8_bytes (code_points (map unat data))))"

text \<open>
  \<open>buf.toString('utf8')\<close>: the decoder reads a lead byte, which fixes how many
  continuation bytes follow and the range the next one must lie in (so that overlong
  forms, surrogates and values past U+10FFFF are refused); a byte that does not fit
  ends the sequence with U+FFFD and is read again as a lead byte. The state is
  (bytes still needed, bits gathered, lower bound, upper bound).
\<close>

definition utf8_lead :: "nat \<Rightarrow> nat + (nat \<times> nat \<times> nat \<times> nat)" where
  "utf8_lead b =
     (if b < 0x80 then Inl b
      else if 0xC2 \<le> b \<and> b \<le> 0xDF then Inr (1, b - 0xC0, 0x80, 0xBF)
      else if 0xE0 \<le> b \<and> b \<le> 0xEF
        then Inr (2, b - 0xE0, if b = 0xE0 then 0xA0 else 0x80, if b = 0xED then 0x9F else 0xBF)
      else if 0xF0 \<le> b \<and> b \<le> 0xF4
        then Inr (3, b - 0xF0, if b = 0xF0 then 0x90 else 0x80, if b = 0xF4 then 0x8F else 0xBF)
      else Inl 0xFFFD)"

fun utf8_dec :: "(nat \<times> nat \<times> nat \<times> nat) option \<Rightarrow> nat list \<Rightarrow> nat list" where
  "utf8_dec None [] = []"
| "utf8_dec (Some st) [] = [0xFFFD]"
| "utf8_dec None (b # bs) =
     (case utf8_lead b of
        Inl c \<Rightarrow> c # utf8_dec None bs
      | Inr st \<Rightarrow> utf8_dec (Some st) bs)"
| "utf8_dec (Some (needed, cp, lo, hi)) (b # bs) =
     (if lo \<le> b \<and> b \<le> hi then
        (if needed = 1 then (cp * 0x40 + (b - 0x80)) # utf8_dec None bs
         else utf8_dec (Some (needed - 1, cp * 0x40 + (b - 0x80), 0x80, 0xBF)) bs)
      else
        0xFFFD #
        (case utf8_lead b of
           Inl c \<Rightarrow> c # utf8_dec None bs
         | Inr st \<Rightarrow> utf8_dec (Some st) bs))"

definition utf16_units :: "nat \<Rightarrow> nat list" where
  "utf16_units c =
     (if c < 0x10000 then [c]
      else [0xD800 + (c - 0x10000) div 0x400, 0xDC00 + (c - 0x10000) mod 0x400])"

definition toString_utf8 :: "byte list \<Rightarrow> jsstring" where
  "toString_utf8 buf = map of_nat (concat (map utf16_units (utf8_dec None (map unat buf))))"

text \<open>
  \<open>buf.toString('base64')\<close>: the standard alphabet, three bytes to four characters,
  padded with \<open>=\<close>.
\<close>

definition base64_char :: "nat \<Rightarrow> nat" where
  "base64_char v =
     (if v < 26 then 65 + v
      else if v < 52 then 71 + v
      else if v < 62 then v - 4
      else if v = 62 then 43
      else 47)"

fun base64_encode :: "nat list \<Rightarrow> nat list" where
  "base64_encode [] = []"
| "base64_encode [a] = [base64_char (a div 4), base64_char (a mod 4 * 16), 61, 61]"
| "base64_encode [a, b] =
     [base64_char (a div 4), base64_char (a mod 4 * 16 + b div 16), base64_char (b mod 16 * 4), 61]"
| "base64_encode (a # b # c # bs) =
     [base64_char (a div 4), base64_char (a mod 4 * 16 + b div 16),
      base64_char (b mod 16 * 4 + c div 64), base64_char (c mod 64)] @ base64_encode bs"

definition toString_base64 :: "byte list \<Rightarrow> jsstring" where
  "toString_base64 buf = map of_nat (base64_encode (map unat buf))"

text \<open>
  \<open>Buffer.from(data, 'base64')\<close> never throws. Node's decoder looks at the low byte
  of each code unit; a character of the standard or of the URL-safe alphabet gives six
  bits, \<open>=\<close> ends the decoding, and every other character is skipped. Each second,
  third and fourth legal character of a group of four completes a byte.
\<close>

definition unbase64 :: "nat \<Rightarrow> nat option" where
  "unbase64 c =
     (if 65 \<le> c \<and> c \<le> 90 then Some (c - 65)
      else if 97 \<le> c \<and> c \<le> 122 then Some (c - 71)
      else if 48 \<le> c \<and> c \<le> 57 then Some (c + 4)
      else if c = 43 \<or> c = 45 then Some 62
      else if c = 47 \<or> c = 95 then Some 63
      else None)"

fun base64_sextets :: "nat list \<Rightarrow> nat list" where
  "base64_sextets [] = []"
| "base64_sextets (c # cs) =
     (case unbase64 c of
        Some v \<Rightarrow> v # base64_sextets cs
      | None \<Rightarrow> if c = 61 then [] else base64_sextets cs)"

fun base64_bytes :: "nat list \<Rightarrow> nat list" where
  "base64_bytes (a # b # c # d # vs) =
     [a * 4 + b div 16, b mod 16 * 16 + c div 4, c mod 4 * 64 + d] @ base64_bytes vs"
| "base64_bytes [a, b, c] = [a * 4 + b div 16, b mod 16 * 16 + c div 4]"
| "base64_bytes [a, b] = [a * 4 + b div 16]"
| "base64_bytes vs = []"

definition Buffer_from_base64 :: "jsstring \<Rightarrow> byte list" where
  "Buffer_from_base64 data =
     map of_nat (base64_bytes (base64_sextets (map (\<lambda>u. unat u mod 256) data)))"

section \<open>Helpers of the program: \<open>statEntry\<close> and \<open>asResult\<close>\<close>

record entry =
  name :: string
  type :: string
  size :: nat
  mtimeMs :: real

definition statEntry :: "node \<Rightarrow> string \<Rightarrow> errcode + entry" where
  "statEntry fs absp =
     (case fs_stat fs absp of
        Inl e \<Rightarrow> Inl e
      | Inr s \<Rightarrow>
          Inr \<lparr>name = basename absp,
               type = (if isFile s then ''file'' else if isDirectory s then ''dir'' else ''other''),
               size = st_size s,
               mtimeMs = st_mtimeMs s\<rparr>)"

text \<open>
  What an executor hands to \<open>asResult\<close> is a string or the list of entries. The text
  of the result is the string itself, or \<open>JSON.stringify(x, null, 2)\<close>, which is kept as
  a constructor around the value it serialises. A part of the content is the pair of
  its \<open>type\<close> and its \<open>text\<close>.
\<close>

datatype payload = Str jsstring | Entries "entry list"

datatype rendered = Verbatim jsstring | JSON_stringify "entry list"

datatype part = Part string rendered

record result =
  content :: "part list"

definition asResult :: "payload \<Rightarrow> result" where
  "asResult x =
     \<lparr>content = [Part ''text'' (case x of Str s \<Rightarrow> Verbatim s | Entries es \<Rightarrow> JSON_stringify es)]\<rparr>"

section \<open>The tools\<close>

text \<open>
  Each \<open>execute\<close> takes its destructured parameters (an absent one is \<open>None\<close>, and gets
  the default of the parameter list) and the file system, and gives back the outcome of
  the promise together with the file system it leaves. \<open>Promise.all\<close> over the entries
  rejects as soon as one \<open>statEntry\<close> does; on a tree that stands still that is the
  first one in the list that fails.

  The executors of \<open>fs-spec.js\<close> and of \<open>fs.mcp.js\<close> are the same line by line,
  but for \<open>writeFile\<close>: the parameter list of \<open>fs-spec.js\<close> gives no default to
  \<open>data\<close> and none to \<open>append\<close>. With \<open>append\<close> left out the flag is \<open>w\<close> all
  the same; with \<open>data\<close> left out \<open>Buffer.from(undefined, ...)\<close> throws its
  \<open>TypeError\<close> before \<open>safe\<close> is called. \<open>writeFile_execute\<close> is the executor of
  \<open>fs.mcp.js\<close>, \<open>writeFile_execute_fs_spec\<close> the one of \<open>fs-spec.js\<close>.
\<close>

fun promise_all :: "(errcode + 'a) list \<Rightarrow> errcode + 'a list" where
  "promise_all [] = Inr []"
| "promise_all (Inl e # ps) = Inl e"
| "promise_all (Inr x # ps) = (case promise_all ps of Inl e \<Rightarrow> Inl e | Inr xs \<Rightarrow> Inr (x # xs))"

definition ls_execute :: "process \<Rightarrow> string option \<Rightarrow> node \<Rightarrow> (error + result) \<times> node" where
  "ls_execute pr path fs =
     (let rel = (case path of None \<Rightarrow> ''.'' | Some r \<Rightarrow> r) in
      case safe pr rel of
        Inl e \<Rightarrow> (Inl e, fs)
      | Inr absp \<Rightarrow>
          (case fs_readdir fs absp of
             Inl c \<Rightarrow> (Inl (SystemError c), fs)
           | Inr entries \<Rightarrow>
               (case promise_all (map (\<lambda>n. statEntry fs (path_join [absp, n])) entries) of
                  Inl c \<Rightarrow> (Inl (SystemError c), fs)
                | Inr detailed \<Rightarrow> (Inr (asResult (Entries detailed)), fs))))"

definition readFile_execute ::
    "process \<Rightarrow> string \<Rightarrow> string option \<Rightarrow> node \<Rightarrow> (error + result) \<times> node" where
  "readFile_execute pr rel encoding fs =
     (let enc = (case encoding of None \<Rightarrow> ''utf8'' | Some e \<Rightarrow> e) in
      case safe pr rel of
        Inl e \<Rightarrow> (Inl e, fs)
      | Inr absp \<Rightarrow>
          (case fs_readFile fs absp of
             Inl c \<Rightarrow> (Inl (SystemError c), fs)
           | Inr buf \<Rightarrow>
               (Inr (asResult (Str (if enc = ''utf8'' then toString_utf8 buf
                                    else toString_base64 buf))), fs)))"

definition writeFile_execute ::
    "process \<Rightarrow> sys \<Rightarrow> string \<Rightarrow> jsstring option \<Rightarrow> string option \<Rightarrow> bool option \<Rightarrow> node
      \<Rightarrow> (error + result) \<times> node" where
  "writeFile_execute pr sy rel data encoding append_flag fs =
     (let d = (case data of None \<Rightarrow> [] | Some x \<Rightarrow> x);
          enc = (case encoding of None \<Rightarrow> ''utf8'' | Some e \<Rightarrow> e);
          app = (case append_flag of None \<Rightarrow> False | Some a \<Rightarrow> a);
          buf = (if enc = ''utf8'' then Buffer_from_utf8 d else Buffer_from_base64 d)
      in case safe pr rel of
           Inl e \<Rightarrow> (Inl e, fs)
         | Inr absp \<Rightarrow>
             (case fs_writeFile sy absp buf app fs of
                Inl c \<Rightarrow> (Inl (SystemError c), fs)
              | Inr fs' \<Rightarrow> (Inr (asResult (Str (jsstr ''ok''))), fs')))"

definition writeFile_execute_fs_spec ::
    "process \<Rightarrow> sys \<Rightarrow> string \<Rightarrow> jsstring option \<Rightarrow> string option \<Rightarrow> bool option \<Rightarrow> node
      \<Rightarrow> (error + result) \<times> node" where
  "writeFile_execute_fs_spec pr sy rel data encoding append_flag fs =
     (let enc = (case encoding of None \<Rightarrow> ''utf8'' | Some e \<Rightarrow> e);
          app = (case append_flag of None \<Rightarrow> False | Some a \<Rightarrow> a)
      in case data of
           None \<Rightarrow> (Inl (TypeError ''ERR_INVALID_ARG_TYPE''), fs)
         | Some d \<Rightarrow>
             (let buf = (if enc = ''utf8'' then Buffer_from_utf8 d else Buffer_from_base64 d)
              in case safe pr rel of
                   Inl e \<Rightarrow> (Inl e, fs)
                 | Inr absp \<Rightarrow>
                     (case fs_writeFile sy absp buf app fs of
                        Inl c \<Rightarrow> (Inl (SystemError c), fs)
                      | Inr fs' \<Rightarrow> (Inr (asResult (Str (jsstr ''ok''))), fs'))))"

text \<open>
  The buffer that \<open>writeFile\<close> hands to \<open>fs.writeFile\<close>:
  \<open>encoding === 'utf8' ? Buffer.from(data, 'utf8') : Buffer.from(data, 'base64')\<close>.
\<close>

definition buffer_of :: "string option \<Rightarrow> jsstring \<Rightarrow> byte list" where
  "buffer_of encoding d =
     (if (case encoding of None \<Rightarrow> ''utf8'' | Some e \<Rightarrow> e) = ''utf8'' then Buffer_from_utf8 d
      else Buffer_from_base64 d)"

definition mkdir_execute ::
    "process \<Rightarrow> sys \<Rightarrow> string \<Rightarrow> bool option \<Rightarrow> node \<Rightarrow> (error + result) \<times> node" where
  "mkdir_execute pr sy rel recursive fs =
     (let r = (case recursive of None \<Rightarrow> True | Some b \<Rightarrow> b) in
      case safe pr rel of
        Inl e \<Rightarrow> (Inl e, fs)
      | Inr absp \<Rightarrow>
          (case fs_mkdir sy absp r fs of
             Inl c \<Rightarrow> (Inl (SystemError c), fs)
           | Inr fs' \<Rightarrow> (Inr (asResult (Str (jsstr ''ok''))), fs')))"

definition rename_execute ::
    "process \<Rightarrow> sys \<Rightarrow> string \<Rightarrow> string \<Rightarrow> node \<Rightarrow> (error + result) \<times> node" where
  "rename_execute pr sy from to fs =
     (case safe pr from of
        Inl e \<Rightarrow> (Inl e, fs)
      | Inr a \<Rightarrow>
          (case safe pr to of
             Inl e \<Rightarrow> (Inl e, fs)
           | Inr b \<Rightarrow>
               (case fs_rename sy a b fs of
                  Inl c \<Rightarrow> (Inl (SystemError c), fs)
                | Inr fs' \<Rightarrow> (Inr (asResult (Str (jsstr ''ok''))), fs'))))"

definition rm_execute ::
    "process \<Rightarrow> sys \<Rightarrow> string \<Rightarrow> bool option \<Rightarrow> node \<Rightarrow> (error + result) \<times> node" where
  "rm_execute pr sy rel recursive fs =
     (let r = (case recursive of None \<Rightarrow> False | Some b \<Rightarrow> b) in
      case safe pr rel of
        Inl e \<Rightarrow> (Inl e, fs)
      | Inr absp \<Rightarrow>
          (case fs_stat fs absp of
             Inl c \<Rightarrow> (Inl (SystemError c), fs)
           | Inr s \<Rightarrow>
               if isDirectory s then
                 (case fs_rm sy absp r fs of
                    (Some c, fs') \<Rightarrow> (Inl (SystemError c), fs')
                  | (None, fs') \<Rightarrow> (Inr (asResult (Str (jsstr ''ok''))), fs'))
               else
                 (case fs_unlink sy absp fs of
                    Inl c \<Rightarrow> (Inl (SystemError c), fs)
                  | Inr fs' \<Rightarrow> (Inr (asResult (Str (jsstr ''ok''))), fs'))))"

text \<open>
  \<open>fsSpec.tools\<close>: a call names a tool and carries its parameters; \<open>execute\<close> runs the
  tool of that name, of the one or the other version of the module.
\<close>

datatype version = Fs_spec_js | Fs_mcp_js

datatype call =
  Ls "string option"
  | ReadFile string "string option"
  | WriteFile string "jsstring option" "string option" "bool option"
  | Mkdir string "bool option"
  | Rename string string
  | Rm string "bool option"

fun execute :: "version \<Rightarrow> process \<Rightarrow> sys \<Rightarrow> call \<Rightarrow> node \<Rightarrow> (error + result) \<times> node" where
  "execute v pr sy (Ls path) fs = ls_execute pr path fs"
| "execute v pr sy (ReadFile path encoding) fs = readFile_execute pr path encoding fs"
| "execute v pr sy (WriteFile path data encoding append_flag) fs =
     (case v of
        Fs_spec_js \<Rightarrow> writeFile_execute_fs_spec pr sy path data encoding append_flag fs
      | Fs_mcp_js \<Rightarrow> writeFile_execute pr sy path data encoding append_flag fs)"
| "execute v pr sy (Mkdir path recursive) fs = mkdir_execute pr sy path recursive fs"
| "execute v pr sy (Rename from to) fs = rename_execute pr sy from to fs"
| "execute v pr sy (Rm path recursive) fs = rm_execute pr sy path recursive fs"

section \<open>Parameter validation (zod)\<close>

text \<open>
  A raw argument is a JSON value; a field that is left out is \<open>None\<close>. \<open>z.enum\<close>
  accepts the strings of its list and nothing else. \<open>.default(d)\<close> puts \<open>d\<close> in the
  place of a missing value before the inner schema runs, \<open>.transform(f)\<close> applies \<open>f\<close>
  to what the inner schema accepted, and \<open>.optional()\<close> lets a missing value through
  as missing. The caller parses the raw arguments with the \<open>parameters\<close> of the tool and
  hands the outcome to its \<open>execute\<close>.
\<close>

datatype raw = RString string | RBoolean bool | RNumber real | RNull

definition z_enum :: "string list \<Rightarrow> raw \<Rightarrow> error + string" where
  "z_enum values x =
     (case x of
        RString s \<Rightarrow> if s \<in> set values then Inr s else Inl (ZodError ''invalid_enum_value'')
      | _ \<Rightarrow> Inl (ZodError ''invalid_type''))"

text \<open>
  \<open>fs.mcp.js\<close>:
  \<open>Encoding = z.enum(['utf8', 'utf-8', 'base64']).transform(e => e === 'utf-8' ? 'utf8' : e).default('utf8')\<close>,
  and the field \<open>encoding: Encoding.optional()\<close> of \<open>Read\<close> and \<open>Write\<close>.
\<close>

definition Encoding :: "raw option \<Rightarrow> error + string" where
  "Encoding x =
     (case z_enum [''utf8'', ''utf-8'', ''base64'']
             (case x of None \<Rightarrow> RString ''utf8'' | Some v \<Rightarrow> v) of
        Inl err \<Rightarrow> Inl err
      | Inr e \<Rightarrow> Inr (if e = ''utf-8'' then ''utf8'' else e))"

definition Encoding_optional :: "raw option \<Rightarrow> error + string option" where
  "Encoding_optional x =
     (case x of
        None \<Rightarrow> Inr None
      | Some v \<Rightarrow> (case Encoding (Some v) of Inl err \<Rightarrow> Inl err | Inr e \<Rightarrow> Inr (Some e)))"

text \<open>
  \<open>fs-spec.js\<close>: the field
  \<open>encoding: z.enum(['utf8', 'base64']).default('utf8')\<close> of \<open>ReadFileShape\<close> and
  \<open>WriteFileShape\<close>.
\<close>

definition ReadFileShape_encoding :: "raw option \<Rightarrow> error + string option" where
  "ReadFileShape_encoding x =
     (case z_enum [''utf8'', ''base64''] (case x of None \<Rightarrow> RString ''utf8'' | Some v \<Rightarrow> v) of
        Inl err \<Rightarrow> Inl err
      | Inr e \<Rightarrow> Inr (Some e))"

text \<open>
  A call of \<open>readFile\<close> or \<open>writeFile\<close> from raw arguments: the encoding goes through
  the schema of the shape, and a rejected value ends the call before \<open>execute\<close> runs.
\<close>

definition readFile_call ::
    "(raw option \<Rightarrow> error + string option) \<Rightarrow> process \<Rightarrow> string \<Rightarrow> raw option \<Rightarrow> node
      \<Rightarrow> (error + result) \<times> node" where
  "readFile_call schema pr rel raw_encoding fs =
     (case schema raw_encoding of
        Inl err \<Rightarrow> (Inl err, fs)
      | Inr encoding \<Rightarrow> readFile_execute pr rel encoding fs)"

definition writeFile_call ::
    "(raw option \<Rightarrow> error + string option) \<Rightarrow> process \<Rightarrow> sys \<Rightarrow> string \<Rightarrow> jsstring option
      \<Rightarrow> raw option \<Rightarrow> bool option \<Rightarrow> node \<Rightarrow> (error + result) \<times> node" where
  "writeFile_call schema pr sy rel data raw_encoding append_flag fs =
     (case schema raw_encoding of
        Inl err \<Rightarrow> (Inl err, fs)
      | Inr encoding \<Rightarrow> writeFile_execute pr sy rel data encoding append_flag fs)"

section \<open>Predicates on payloads\<close>

text \<open>
  A string is well formed (\<open>String.prototype.isWellFormed\<close>) when it has no surrogate
  on its own: every high surrogate is followed by a low one, and every low one follows
  a high one.
\<close>

fun well_formed_units :: "nat list \<Rightarrow> bool" where
  "well_formed_units [] = True"
| "well_formed_units [u] = (\<not> (0xD800 \<le> u \<and> u \<le> 0xDFFF))"
| "well_formed_units (u # v # us) =
     (if 0xD800 \<le> u \<and> u \<le> 0xDBFF \<and> 0xDC00 \<le> v \<and> v \<le> 0xDFFF then well_formed_units us
      else \<not> (0xD800 \<le> u \<and> u \<le> 0xDFFF) \<and> well_formed_units (v # us))"

definition isWellFormed :: "jsstring \<Rightarrow> bool" where
  "isWellFormed data = well_formed_units (map unat data)"

text \<open>A code point that UTF-8 can carry: up to U+10FFFF and no surrogate.\<close>

definition scalar :: "nat \<Rightarrow> bool" where
  "scalar c = (c < 0x110000 \<and> \<not> (0xD800 \<le> c \<and> c \<le> 0xDFFF))"


section \<open>Concrete states used in the examples\<close>

text \<open>
  A process started in \<open>/srv/proj\<close> with no \<open>FS_ROOT\<close>, so that \<open>ROOT\<close> is
  \<open>/srv/proj\<close>; and a tree in which the root directory holds the directory \<open>a\<close> with
  the file \<open>f.txt\<close> and the empty file \<open>g\<close>, and has a sibling \<open>/srv/proj-secret\<close>
  with the file \<open>x\<close>.
\<close>

definition demo_process :: process where
  "demo_process = \<lparr>cwd = ''/srv/proj'', FS_ROOT = None\<rparr>"

definition demo_sys :: sys where
  "demo_sys = \<lparr>now = 9, dir_size = 4096\<rparr>"

definition demo_fs :: node where
  "demo_fs =
     Dir [(''srv'',
           Dir [(''proj'',
                 Dir [(''a'', Dir [(''f.txt'', File [104, 105] 5)] 4096 3),
                      (''g'', File [] 2)] 4096 1),
                (''proj-secret'', Dir [(''x'', File [104, 105] 2)] 4096 1)] 4096 0)] 4096 0"

text \<open>The same tree after \<open>mkdir("b/c", recursive = true)\<close> at time 9.\<close>

definition demo_fs_bc :: node where
  "demo_fs_bc =
     Dir [(''srv'',
           Dir [(''proj'',
                 Dir [(''a'', Dir [(''f.txt'', File [104, 105] 5)] 4096 3),
                      (''g'', File [] 2),
                      (''b'', Dir [(''c'', Dir [] 4096 9)] 4096 9)] 4096 9),
                (''proj-secret'', Dir [(''x'', File [104, 105] 2)] 4096 1)] 4096 0)] 4096 0"

text \<open>
  The first tree after \<open>writeFile("a/h.txt", "hello")\<close>, after
  \<open>rename("g", "h")\<close>, after \<open>rm("g")\<close>, and after
  \<open>writeFile("m.bin", "a*G!k=", "base64")\<close>, each at time 9.
\<close>

definition demo_fs_hello :: node where
  "demo_fs_hello =
     Dir [(''srv'',
           Dir [(''proj'',
                 Dir [(''a'', Dir [(''f.txt'', File [104, 105] 5),
                                   (''h.txt'', File [104, 101, 108, 108, 111] 9)] 4096 9),
                      (''g'', File [] 2)] 4096 1),
                (''proj-secret'', Dir [(''x'', File [104, 105] 2)] 4096 1)] 4096 0)] 4096 0"

definition demo_fs_renamed :: node where
  "demo_fs_renamed =
     Dir [(''srv'',
           Dir [(''proj'',
                 Dir [(''a'', Dir [(''f.txt'', File [104, 105] 5)] 4096 3),
                      (''h'', File [] 2)] 4096 9),
                (''proj-secret'', Dir [(''x'', File [104, 105] 2)] 4096 1)] 4096 0)] 4096 0"

definition demo_fs_removed :: node where
  "demo_fs_removed =
     Dir [(''srv'',
           Dir [(''proj'',
                 Dir [(''a'', Dir [(''f.txt'', File [104, 105] 5)] 4096 3)] 4096 9),
                (''proj-secret'', Dir [(''x'', File [104, 105] 2)] 4096 1)] 4096 0)] 4096 0"

definition demo_fs_m :: node where
  "demo_fs_m =
     Dir [(''srv'',
           Dir [(''proj'',
                 Dir [(''a'', Dir [(''f.txt'', File [104, 105] 5)] 4096 3),
                      (''g'', File [] 2),
                      (''m.bin'', File [104, 105] 9)] 4096 9),
                (''proj-secret'', Dir [(''x'', File [104, 105] 2)] 4096 1)] 4096 0)] 4096 0"

section \<open>Properties\<close>

subsection \<open>The path resolver\<close>

lemmas path_eval =
  safe_def ROOT_def path_resolve_def normalizeString_def isAbsolute_def startsWith_def
  components_def demo_process_def


lemma safe_Inr_startsWith: "safe pr rel = Inr a \<Longrightarrow> startsWith a (ROOT pr)"
  by (auto simp: safe_def Let_def split: if_splits)

text \<open>
  C1. The claim is that \<open>safe\<close> only returns \<open>ROOT\<close> or a path that starts with
  \<open>ROOT\<close> followed by the separator, so that a sibling of the root whose name has the
  root's name as a prefix is rejected. The program tests \<open>abs.startsWith(ROOT)\<close>, without
  the separator: with the root \<open>/srv/proj\<close>, the path \<open>../proj-secret/x\<close> resolves to
  \<open>/srv/proj-secret/x\<close>, which \<open>safe\<close> returns although it is neither the root nor
  below it.
\<close>

theorem safe_returns_sibling_of_root:
  "ROOT demo_process = ''/srv/proj'' \<and>
   safe demo_process ''../proj-secret/x'' = Inr ''/srv/proj-secret/x'' \<and>
   ''/srv/proj-secret/x'' \<noteq> ROOT demo_process \<and>
   \<not> startsWith ''/srv/proj-secret/x'' (ROOT demo_process @ ''/'')"
  by (simp add: path_eval)

subsection \<open>Reading\<close>

text \<open>
  C2. The claim is that \<open>readFile\<close> fails with the path-escape error for every path
  whose canonical form lies outside the root. The path \<open>../proj-secret/x\<close> lies outside
  the root \<open>/srv/proj\<close>, and \<open>readFile\<close> returns the content of that file: the
  same missing separator as in C1.
\<close>

theorem readFile_reads_sibling_of_root:
  "readFile_execute demo_process ''../proj-secret/x'' (Some ''utf8'') demo_fs =
     (Inr (asResult (Str (jsstr ''hi''))), demo_fs)"
  by (simp add: readFile_execute_def path_eval fs_readFile_def demo_fs_def
      toString_utf8_def utf8_lead_def utf16_units_def jsstr_def)

text \<open>
  C10. \<open>readFile\<close> and \<open>ls\<close> leave the file system as it was, whether they succeed
  or fail.
\<close>

theorem readFile_ls_leave_fs_unchanged:
  "snd (readFile_execute pr rel encoding fs) = fs \<and> snd (ls_execute pr path fs) = fs"
  by (auto simp: ls_execute_def readFile_execute_def Let_def split: sum.splits)

subsection \<open>Errors of the executors\<close>

lemma flag_eq: "(case x of None \<Rightarrow> False | Some a \<Rightarrow> a) = (x = Some True)"
  by (cases x) auto

lemma flag_neq: "(case x of None \<Rightarrow> True | Some a \<Rightarrow> a) = (x \<noteq> Some False)"
  by (cases x) auto

lemmas executor_defs =
  ls_execute_def readFile_execute_def writeFile_execute_def writeFile_execute_fs_spec_def
  mkdir_execute_def rename_execute_def rm_execute_def buffer_of_def flag_eq flag_neq Let_def

lemmas demo_eval =
  executor_defs path_eval fs_readdir_def fs_readFile_def fs_stat_def fs_writeFile_def
  write_entry_def fs_mkdir_def mkdir_entry_def fs_rename_def rename_entry_def is_prefix_def
  fs_rm_def rm_entry_def fs_unlink_def unlink_entry_def statEntry_def path_join_def
  path_normalize_def basename_def demo_fs_def demo_fs_bc_def demo_fs_hello_def
  demo_fs_renamed_def demo_fs_removed_def demo_fs_m_def demo_sys_def Buffer_from_utf8_def
  utf8_bytes_def toString_utf8_def utf8_lead_def utf16_units_def Buffer_from_base64_def
  unbase64_def jsstr_def asResult_def

text \<open>
  C3, as claimed: every error is caught at the executor and turned into a failure form
  of the result, so that no call ends in a raw exception. The executors have no
  \<open>try\<close>/\<open>catch\<close> and \<open>asResult\<close> has no failure form: the error of \<open>safe\<close> and a
  system error both reject the promise as they are, in the one version of the module
  and in the other.
\<close>

theorem executor_rejects_with_raw_error:
  "fst (execute Fs_mcp_js demo_process demo_sys (ReadFile ''../../etc/passwd'' None) demo_fs) =
     Inl (Error ''Path escapes project root'') \<and>
   fst (execute Fs_spec_js demo_process demo_sys (ReadFile ''../../etc/passwd'' None) demo_fs) =
     Inl (Error ''Path escapes project root'') \<and>
   fst (execute Fs_mcp_js demo_process demo_sys (ReadFile ''missing.txt'' None) demo_fs) =
     Inl (SystemError ENOENT) \<and>
   (\<nexists>r. fst (execute Fs_mcp_js demo_process demo_sys (ReadFile ''../../etc/passwd'' None) demo_fs) =
      Inr r)"
  by (simp add: readFile_execute_def path_eval fs_readFile_def demo_fs_def)

text \<open>
  C3, amended: no executor catches. For each tool: when \<open>safe\<close> throws for a path
  parameter (for \<open>rename\<close> the first of the two that fails), the promise rejects with
  that very error and the file system is as before; when the call of \<open>node:fs\<close>
  rejects with a system error, the promise rejects with that very system error;
  \<open>writeFile\<close> of \<open>fs-spec.js\<close> without \<open>data\<close> rejects with the \<open>TypeError\<close> of
  \<open>Buffer.from\<close> (in \<open>fs.mcp.js\<close> the missing \<open>data\<close> is the empty string). A result
  is returned only when \<open>safe\<close> accepted every path and every call of \<open>node:fs\<close>
  succeeded, and it is the one text part built by \<open>asResult\<close>.
\<close>

theorem executors_do_not_catch:
  "(safe pr (case path of None \<Rightarrow> ''.'' | Some p \<Rightarrow> p) = Inl e \<longrightarrow>
      execute v pr sy (Ls path) fs = (Inl e, fs)) \<and>
   (safe pr (case path of None \<Rightarrow> ''.'' | Some p \<Rightarrow> p) = Inr a \<and>
    fs_readdir fs a = Inl c \<longrightarrow>
      execute v pr sy (Ls path) fs = (Inl (SystemError c), fs)) \<and>
   (safe pr (case path of None \<Rightarrow> ''.'' | Some p \<Rightarrow> p) = Inr a \<and>
    fs_readdir fs a = Inr names \<longrightarrow>
      execute v pr sy (Ls path) fs =
        (case promise_all (map (\<lambda>n. statEntry fs (path_join [a, n])) names) of
           Inl err \<Rightarrow> (Inl (SystemError err), fs)
         | Inr detailed \<Rightarrow> (Inr (asResult (Entries detailed)), fs))) \<and>
   (safe pr rel = Inl e \<longrightarrow>
      execute v pr sy (ReadFile rel encoding) fs = (Inl e, fs)) \<and>
   (safe pr rel = Inr a \<and>
    fs_readFile fs a = Inl c \<longrightarrow>
      execute v pr sy (ReadFile rel encoding) fs = (Inl (SystemError c), fs)) \<and>
   execute Fs_spec_js pr sy (WriteFile rel None encoding append_flag) fs =
      (Inl (TypeError ''ERR_INVALID_ARG_TYPE''), fs) \<and>
   execute Fs_mcp_js pr sy (WriteFile rel None encoding append_flag) fs =
      execute Fs_mcp_js pr sy (WriteFile rel (Some []) encoding append_flag) fs \<and>
   (safe pr rel = Inl e \<longrightarrow>
      execute v pr sy (WriteFile rel (Some d) encoding append_flag) fs = (Inl e, fs)) \<and>
   (safe pr rel = Inr a \<and>
    fs_writeFile sy a (buffer_of encoding d) (append_flag = Some True) fs = Inl c \<longrightarrow>
      execute v pr sy (WriteFile rel (Some d) encoding append_flag) fs =
        (Inl (SystemError c), fs)) \<and>
   (safe pr rel = Inl e \<longrightarrow>
      execute v pr sy (Mkdir rel recursive) fs = (Inl e, fs)) \<and>
   (safe pr rel = Inr a \<and>
    fs_mkdir sy a (recursive \<noteq> Some False) fs = Inl c \<longrightarrow>
      execute v pr sy (Mkdir rel recursive) fs = (Inl (SystemError c), fs)) \<and>
   (safe pr from_path = Inl e \<longrightarrow>
      execute v pr sy (Rename from_path to_path) fs = (Inl e, fs)) \<and>
   (safe pr from_path = Inr a \<and>
    safe pr to_path = Inl e \<longrightarrow>
      execute v pr sy (Rename from_path to_path) fs = (Inl e, fs)) \<and>
   (safe pr from_path = Inr a \<and>
    safe pr to_path = Inr b \<and>
    fs_rename sy a b fs = Inl c \<longrightarrow>
      execute v pr sy (Rename from_path to_path) fs = (Inl (SystemError c), fs)) \<and>
   (safe pr rel = Inl e \<longrightarrow>
      execute v pr sy (Rm rel recursive) fs = (Inl e, fs)) \<and>
   (safe pr rel = Inr a \<and>
    fs_stat fs a = Inl c \<longrightarrow>
      execute v pr sy (Rm rel recursive) fs = (Inl (SystemError c), fs)) \<and>
   (safe pr rel = Inr a \<and>
    fs_stat fs a = Inr s \<and>
    isDirectory s \<and>
    fs_rm sy a (recursive = Some True) fs = (Some c, fs1) \<longrightarrow>
      execute v pr sy (Rm rel recursive) fs = (Inl (SystemError c), fs1)) \<and>
   (safe pr rel = Inr a \<and>
    fs_stat fs a = Inr s \<and>
    \<not> isDirectory s \<longrightarrow>
      execute v pr sy (Rm rel recursive) fs =
        (case fs_unlink sy a fs of
           Inl err \<Rightarrow> (Inl (SystemError err), fs)
         | Inr fs2 \<Rightarrow> (Inr (asResult (Str (jsstr ''ok''))), fs2))) \<and>
   (fst (execute v pr sy (Ls path) fs) = Inr r \<longrightarrow>
      (\<exists>a' names' detailed.
         safe pr (case path of None \<Rightarrow> ''.'' | Some p \<Rightarrow> p) = Inr a' \<and>
         fs_readdir fs a' = Inr names' \<and>
         promise_all (map (\<lambda>n. statEntry fs (path_join [a', n])) names') = Inr detailed \<and>
         r = asResult (Entries detailed))) \<and>
   (fst (execute v pr sy (ReadFile rel encoding) fs) = Inr r \<longrightarrow>
      (\<exists>a' buf. safe pr rel = Inr a' \<and> fs_readFile fs a' = Inr buf)) \<and>
   (execute v pr sy (WriteFile rel (Some d) encoding append_flag) fs = (Inr r, fs1) \<longrightarrow>
      (\<exists>a'. safe pr rel = Inr a' \<and>
         fs_writeFile sy a' (buffer_of encoding d) (append_flag = Some True) fs = Inr fs1)) \<and>
   (execute v pr sy (Mkdir rel recursive) fs = (Inr r, fs1) \<longrightarrow>
      (\<exists>a'. safe pr rel = Inr a' \<and> fs_mkdir sy a' (recursive \<noteq> Some False) fs = Inr fs1)) \<and>
   (execute v pr sy (Rename from_path to_path) fs = (Inr r, fs1) \<longrightarrow>
      (\<exists>a' b'. safe pr from_path = Inr a' \<and> safe pr to_path = Inr b' \<and>
         fs_rename sy a' b' fs = Inr fs1)) \<and>
   (execute v pr sy (Rm rel recursive) fs = (Inr r, fs1) \<longrightarrow>
      (\<exists>a' s'. safe pr rel = Inr a' \<and> fs_stat fs a' = Inr s' \<and>
         (if isDirectory s' then fs_rm sy a' (recursive = Some True) fs = (None, fs1)
          else fs_unlink sy a' fs = Inr fs1))) \<and>
   (fst (execute v pr sy call fs) = Inr r \<longrightarrow>
      (\<exists>t. content r = [Part ''text'' t]))"
proof -
  have final: "fst (execute v pr sy call fs) = Inr r \<longrightarrow> (\<exists>t. content r = [Part ''text'' t])"
    by (cases call; cases v)
       (auto simp: executor_defs asResult_def split: sum.splits prod.splits option.splits if_splits)
  show ?thesis
    apply (intro conjI)
    subgoal by (cases v) (simp_all add: executor_defs)
    subgoal by (cases v) (simp_all add: executor_defs)
    subgoal by (cases v) (simp_all add: executor_defs)
    subgoal by (cases v) (simp_all add: executor_defs)
    subgoal by (cases v) (simp_all add: executor_defs)
    subgoal by (cases v) (simp_all add: executor_defs)
    subgoal by (cases v) (simp_all add: executor_defs)
    subgoal by (cases v) (simp_all add: executor_defs)
    subgoal by (cases v) (simp_all add: executor_defs)
    subgoal by (cases v) (simp_all add: executor_defs)
    subgoal by (cases v) (simp_all add: executor_defs)
    subgoal by (cases v) (simp_all add: executor_defs)
    subgoal by (cases v) (simp_all add: executor_defs)
    subgoal by (cases v) (simp_all add: executor_defs)
    subgoal by (cases v) (simp_all add: executor_defs)
    subgoal by (cases v) (simp_all add: executor_defs)
    subgoal by (cases v) (simp_all add: executor_defs)
    subgoal by (cases v) (simp_all add: executor_defs)
    subgoal
      by (cases v)
         (auto simp: executor_defs split: sum.splits prod.splits option.splits if_splits)
    subgoal
      by (cases v)
         (auto simp: executor_defs split: sum.splits prod.splits option.splits if_splits)
    subgoal
      by (cases v)
         (auto simp: executor_defs split: sum.splits prod.splits option.splits if_splits)
    subgoal
      by (cases v)
         (auto simp: executor_defs split: sum.splits prod.splits option.splits if_splits)
    subgoal
      by (cases v)
         (auto simp: executor_defs split: sum.splits prod.splits option.splits if_splits)
    subgoal
      by (cases v)
         (auto simp: executor_defs split: sum.splits prod.splits option.splits if_splits)
    subgoal by (rule final)
    done
qed

theorem executors_do_not_catch_witness:
  "safe demo_process (case (Some ''../x'') of None \<Rightarrow> ''.'' | Some p \<Rightarrow> p) = Inl (Error ''Path escapes project root'') \<and>
   execute Fs_mcp_js demo_process demo_sys (Ls (Some ''../x'')) demo_fs = (Inl (Error ''Path escapes project root''), demo_fs) \<and>
   safe demo_process (case (Some ''g/x'') of None \<Rightarrow> ''.'' | Some p \<Rightarrow> p) = Inr ''/srv/proj/g/x'' \<and>
   fs_readdir demo_fs ''/srv/proj/g/x'' = Inl ENOTDIR \<and>
   execute Fs_spec_js demo_process demo_sys (Ls (Some ''g/x'')) demo_fs = (Inl (SystemError ENOTDIR), demo_fs) \<and>
   safe demo_process (case None of None \<Rightarrow> ''.'' | Some p \<Rightarrow> p) = Inr ''/srv/proj'' \<and>
   fs_readdir demo_fs ''/srv/proj'' = Inr [''a'', ''g''] \<and>
   execute Fs_mcp_js demo_process demo_sys (Ls None) demo_fs =
        (case promise_all (map (\<lambda>n. statEntry demo_fs (path_join [''/srv/proj'', n])) [''a'', ''g'']) of
           Inl err \<Rightarrow> (Inl (SystemError err), demo_fs)
         | Inr detailed \<Rightarrow> (Inr (asResult (Entries detailed)), demo_fs)) \<and>
   safe demo_process ''../x'' = Inl (Error ''Path escapes project root'') \<and>
   execute Fs_mcp_js demo_process demo_sys (ReadFile ''../x'' None) demo_fs = (Inl (Error ''Path escapes project root''), demo_fs) \<and>
   safe demo_process ''g/x'' = Inr ''/srv/proj/g/x'' \<and>
   fs_readFile demo_fs ''/srv/proj/g/x'' = Inl ENOTDIR \<and>
   execute Fs_spec_js demo_process demo_sys (ReadFile ''g/x'' None) demo_fs = (Inl (SystemError ENOTDIR), demo_fs) \<and>
   execute Fs_spec_js demo_process demo_sys (WriteFile ''g'' None None None) demo_fs =
      (Inl (TypeError ''ERR_INVALID_ARG_TYPE''), demo_fs) \<and>
   execute Fs_mcp_js demo_process demo_sys (WriteFile ''g'' None None None) demo_fs =
      execute Fs_mcp_js demo_process demo_sys (WriteFile ''g'' (Some []) None None) demo_fs \<and>
   execute Fs_spec_js demo_process demo_sys (WriteFile ''../x'' (Some (jsstr ''x'')) None None) demo_fs = (Inl (Error ''Path escapes project root''), demo_fs) \<and>
   fs_writeFile demo_sys ''/srv/proj/g/x'' (buffer_of None (jsstr ''x'')) (None = Some True) demo_fs = Inl ENOTDIR \<and>
   execute Fs_mcp_js demo_process demo_sys (WriteFile ''g/x'' (Some (jsstr ''x'')) None None) demo_fs =
        (Inl (SystemError ENOTDIR), demo_fs) \<and>
   execute Fs_mcp_js demo_process demo_sys (Mkdir ''../x'' None) demo_fs = (Inl (Error ''Path escapes project root''), demo_fs) \<and>
   fs_mkdir demo_sys ''/srv/proj/g/x'' (None \<noteq> Some False) demo_fs = Inl ENOTDIR \<and>
   execute Fs_mcp_js demo_process demo_sys (Mkdir ''g/x'' None) demo_fs = (Inl (SystemError ENOTDIR), demo_fs) \<and>
   execute Fs_mcp_js demo_process demo_sys (Rename ''../x'' ''g'') demo_fs = (Inl (Error ''Path escapes project root''), demo_fs) \<and>
   safe demo_process ''g'' = Inr ''/srv/proj/g'' \<and>
   execute Fs_mcp_js demo_process demo_sys (Rename ''g'' ''../x'') demo_fs = (Inl (Error ''Path escapes project root''), demo_fs) \<and>
   safe demo_process ''h'' = Inr ''/srv/proj/h'' \<and>
   fs_rename demo_sys ''/srv/proj/g/x'' ''/srv/proj/h'' demo_fs = Inl ENOTDIR \<and>
   execute Fs_mcp_js demo_process demo_sys (Rename ''g/x'' ''h'') demo_fs = (Inl (SystemError ENOTDIR), demo_fs) \<and>
   execute Fs_mcp_js demo_process demo_sys (Rm ''../x'' None) demo_fs = (Inl (Error ''Path escapes project root''), demo_fs) \<and>
   fs_stat demo_fs ''/srv/proj/g/x'' = Inl ENOTDIR \<and>
   execute Fs_mcp_js demo_process demo_sys (Rm ''g/x'' None) demo_fs = (Inl (SystemError ENOTDIR), demo_fs) \<and>
   safe demo_process ''a'' = Inr ''/srv/proj/a'' \<and>
   fs_stat demo_fs ''/srv/proj/a'' = Inr (stats_of (Dir [(''f.txt'', File [104, 105] 5)] 4096 3)) \<and>
   isDirectory (stats_of (Dir [(''f.txt'', File [104, 105] 5)] 4096 3)) \<and>
   fs_rm demo_sys ''/srv/proj/a'' (None = Some True) demo_fs = (Some ERR_FS_EISDIR, demo_fs) \<and>
   execute Fs_mcp_js demo_process demo_sys (Rm ''a'' None) demo_fs = (Inl (SystemError ERR_FS_EISDIR), demo_fs) \<and>
   fs_stat demo_fs ''/srv/proj/g'' = Inr (stats_of (File [] 2)) \<and>
   \<not> isDirectory (stats_of (File [] 2)) \<and>
   execute Fs_mcp_js demo_process demo_sys (Rm ''g'' None) demo_fs =
        (case fs_unlink demo_sys ''/srv/proj/g'' demo_fs of
           Inl err \<Rightarrow> (Inl (SystemError err), demo_fs)
         | Inr fs2 \<Rightarrow> (Inr (asResult (Str (jsstr ''ok''))), fs2)) \<and>
   fst (execute Fs_mcp_js demo_process demo_sys (Ls None) demo_fs) = Inr (asResult (Entries
        [\<lparr>name = ''a'', type = ''dir'', size = 4096, mtimeMs = 3\<rparr>,
         \<lparr>name = ''g'', type = ''file'', size = 0, mtimeMs = 2\<rparr>])) \<and>
   (\<exists>a' names' detailed.
         safe demo_process (case None of None \<Rightarrow> ''.'' | Some p \<Rightarrow> p) = Inr a' \<and>
         fs_readdir demo_fs a' = Inr names' \<and>
         promise_all (map (\<lambda>n. statEntry demo_fs (path_join [a', n])) names') = Inr detailed \<and>
         (asResult (Entries
        [\<lparr>name = ''a'', type = ''dir'', size = 4096, mtimeMs = 3\<rparr>,
         \<lparr>name = ''g'', type = ''file'', size = 0, mtimeMs = 2\<rparr>])) = asResult (Entries detailed)) \<and>
   fst (execute Fs_mcp_js demo_process demo_sys (ReadFile ''a/f.txt'' None) demo_fs) = Inr (asResult (Str (jsstr ''hi''))) \<and>
   (\<exists>a' buf. safe demo_process ''a/f.txt'' = Inr a' \<and> fs_readFile demo_fs a' = Inr buf) \<and>
   execute Fs_spec_js demo_process demo_sys (WriteFile ''a/h.txt'' (Some (jsstr ''hello'')) (Some ''utf8'') (Some False)) demo_fs = (Inr (asResult (Str (jsstr ''ok''))), demo_fs_hello) \<and>
   (\<exists>a'. safe demo_process ''a/h.txt'' = Inr a' \<and>
         fs_writeFile demo_sys a' (buffer_of (Some ''utf8'') (jsstr ''hello'')) ((Some False) = Some True) demo_fs = Inr demo_fs_hello) \<and>
   execute Fs_mcp_js demo_process demo_sys (Mkdir ''b/c'' None) demo_fs = (Inr (asResult (Str (jsstr ''ok''))), demo_fs_bc) \<and>
   (\<exists>a'. safe demo_process ''b/c'' = Inr a' \<and> fs_mkdir demo_sys a' (None \<noteq> Some False) demo_fs = Inr demo_fs_bc) \<and>
   execute Fs_mcp_js demo_process demo_sys (Rename ''g'' ''h'') demo_fs = (Inr (asResult (Str (jsstr ''ok''))), demo_fs_renamed) \<and>
   (\<exists>a' b'. safe demo_process ''g'' = Inr a' \<and> safe demo_process ''h'' = Inr b' \<and>
         fs_rename demo_sys a' b' demo_fs = Inr demo_fs_renamed) \<and>
   execute Fs_mcp_js demo_process demo_sys (Rm ''g'' None) demo_fs = (Inr (asResult (Str (jsstr ''ok''))), demo_fs_removed) \<and>
   (\<exists>a' s'. safe demo_process ''g'' = Inr a' \<and> fs_stat demo_fs a' = Inr s' \<and>
         (if isDirectory s' then fs_rm demo_sys a' (None = Some True) demo_fs = (None, demo_fs_removed)
          else fs_unlink demo_sys a' demo_fs = Inr demo_fs_removed)) \<and>
   fst (execute Fs_mcp_js demo_process demo_sys (Mkdir ''b/c'' None) demo_fs) = Inr (asResult (Str (jsstr ''ok''))) \<and>
   (\<exists>t. content (asResult (Str (jsstr ''ok''))) = [Part ''text'' t])"
proof -
  have h0:
     "safe demo_process (case (Some ''../x'') of None \<Rightarrow> ''.'' | Some p \<Rightarrow> p) = Inl (Error ''Path escapes project root'')"
    by (simp add: demo_eval)
  note c0 = executors_do_not_catch [THEN conjunct1, THEN mp, OF h0]
  have h1:
     "safe demo_process (case (Some ''g/x'') of None \<Rightarrow> ''.'' | Some p \<Rightarrow> p) = Inr ''/srv/proj/g/x'' \<and>
      fs_readdir demo_fs ''/srv/proj/g/x'' = Inl ENOTDIR"
    by (simp add: demo_eval)
  note c1 = executors_do_not_catch [THEN conjunct2, THEN conjunct1, THEN mp, OF h1]
  have h2:
     "safe demo_process (case None of None \<Rightarrow> ''.'' | Some p \<Rightarrow> p) = Inr ''/srv/proj'' \<and>
      fs_readdir demo_fs ''/srv/proj'' = Inr [''a'', ''g'']"
    by (simp add: demo_eval)
  note c2 = executors_do_not_catch [THEN conjunct2, THEN conjunct2, THEN conjunct1, THEN mp, OF h2]
  have h3:
     "safe demo_process ''../x'' = Inl (Error ''Path escapes project root'')"
    by (simp add: demo_eval)
  note c3 = executors_do_not_catch [THEN conjunct2, THEN conjunct2, THEN conjunct2, THEN conjunct1, THEN mp, OF h3]
  have h4:
     "safe demo_process ''g/x'' = Inr ''/srv/proj/g/x'' \<and>
      fs_readFile demo_fs ''/srv/proj/g/x'' = Inl ENOTDIR"
    by (simp add: demo_eval)
  note c4 = executors_do_not_catch [THEN conjunct2, THEN conjunct2, THEN conjunct2, THEN conjunct2, THEN conjunct1, THEN mp, OF h4]
  note c5 = executors_do_not_catch [THEN conjunct2, THEN conjunct2, THEN conjunct2, THEN conjunct2, THEN conjunct2, THEN conjunct1]
  note c6 = executors_do_not_catch [THEN conjunct2, THEN conjunct2, THEN conjunct2, THEN conjunct2, THEN conjunct2, THEN conjunct2, THEN conjunct1]
  have h7:
     "safe demo_process ''../x'' = Inl (Error ''Path escapes project root'')"
    by (simp add: demo_eval)
  note c7 = executors_do_not_catch [THEN conjunct2, THEN conjunct2, THEN conjunct2, THEN conjunct2, THEN conjunct2, THEN conjunct2, THEN conjunct2, THEN conjunct1, THEN mp, OF h7]
  have h8:
     "safe demo_process ''g/x'' = Inr ''/srv/proj/g/x'' \<and>
      fs_writeFile demo_sys ''/srv/proj/g/x'' (buffer_of None (jsstr ''x'')) (None = Some True) demo_fs = Inl ENOTDIR"
    by (simp add: demo_eval)
  note c8 = executors_do_not_catch [THEN conjunct2, THEN conjunct2, THEN conjunct2, THEN conjunct2, THEN conjunct2, THEN conjunct2, THEN conjunct2, THEN conjunct2, THEN conjunct1, THEN mp, OF h8]
  have h9:
     "safe demo_process ''../x'' = Inl (Error ''Path escapes project root'')"
    by (simp add: demo_eval)
  note c9 = executors_do_not_catch [THEN conjunct2, THEN conjunct2, THEN conjunct2, THEN conjunct2, THEN conjunct2, THEN conjunct2, THEN conjunct2, THEN conjunct2, THEN conjunct2, THEN conjunct1, THEN mp, OF h9]
  have h10:
     "safe demo_process ''g/x'' = Inr ''/srv/proj/g/x'' \<and>
      fs_mkdir demo_sys ''/srv/proj/g/x'' (None \<noteq> Some False) demo_fs = Inl ENOTDIR"
    by (simp add: demo_eval)
  note c10 = executors_do_not_catch [THEN conjunct2, THEN conjunct2, THEN conjunct2, THEN conjunct2, THEN conjunct2, THEN conjunct2, THEN conjunct2, THEN conjunct2, THEN conjunct2, THEN conjunct2, THEN conjunct1, THEN mp, OF h10]
  have h11:
     "safe demo_process ''../x'' = Inl (Error ''Path escapes project root'')"
    by (simp add: demo_eval)
  note c11 = executors_do_not_catch [THEN conjunct2, THEN conjunct2, THEN conjunct2, THEN conjunct2, THEN conjunct2, THEN conjunct2, THEN conjunct2, THEN conjunct2, THEN conjunct2, THEN conjunct2, THEN conjunct2, THEN conjunct1, THEN mp, OF h11]
  have h12:
     "safe demo_process ''g'' = Inr ''/srv/proj/g'' \<and>
      safe demo_process ''../x'' = Inl (Error ''Path escapes project root'')"
    by (simp add: demo_eval)
  note c12 = executors_do_not_catch [THEN conjunct2, THEN conjunct2, THEN conjunct2, THEN conjunct2, THEN conjunct2, THEN conjunct2, THEN conjunct2, THEN conjunct2, THEN conjunct2, THEN conjunct2, THEN conjunct2, THEN conjunct2, THEN conjunct1, THEN mp, OF h12]
  have h13:
     "safe demo_process ''g/x'' = Inr ''/srv/proj/g/x'' \<and>
      safe demo_process ''h'' = Inr ''/srv/proj/h'' \<and>
      fs_rename demo_sys ''/srv/proj/g/x'' ''/srv/proj/h'' demo_fs = Inl ENOTDIR"
    by (simp add: demo_eval)
  note c13 = executors_do_not_catch [THEN conjunct2, THEN conjunct2, THEN conjunct2, THEN conjunct2, THEN conjunct2, THEN conjunct2, THEN conjunct2, THEN conjunct2, THEN conjunct2, THEN conjunct2, THEN conjunct2, THEN conjunct2, THEN conjunct2, THEN conjunct1, THEN mp, OF h13]
  have h14:
     "safe demo_process ''../x'' = Inl (Error ''Path escapes project root'')"
    by (simp add: demo_eval)
  note c14 = executors_do_not_catch [THEN conjunct2, THEN conjunct2, THEN conjunct2, THEN conjunct2, THEN conjunct2, THEN conjunct2, THEN conjunct2, THEN conjunct2, THEN conjunct2, THEN conjunct2, THEN conjunct2, THEN conjunct2, THEN conjunct2, THEN conjunct2, THEN conjunct1, THEN mp, OF h14]
  have h15:
     "safe demo_process ''g/x'' = Inr ''/srv/proj/g/x'' \<and>
      fs_stat demo_fs ''/srv/proj/g/x'' = Inl ENOTDIR"
    by (simp add: demo_eval)
  note c15 = executors_do_not_catch [THEN conjunct2, THEN conjunct2, THEN conjunct2, THEN conjunct2, THEN conjunct2, THEN conjunct2, THEN conjunct2, THEN conjunct2, THEN conjunct2, THEN conjunct2, THEN conjunct2, THEN conjunct2, THEN conjunct2, THEN conjunct2, THEN conjunct2, THEN conjunct1, THEN mp, OF h15]
  have h16:
     "safe demo_process ''a'' = Inr ''/srv/proj/a'' \<and>
      fs_stat demo_fs ''/srv/proj/a'' = Inr (stats_of (Dir [(''f.txt'', File [104, 105] 5)] 4096 3)) \<and>
      isDirectory (stats_of (Dir [(''f.txt'', File [104, 105] 5)] 4096 3)) \<and>
      fs_rm demo_sys ''/srv/proj/a'' (None = Some True) demo_fs = (Some ERR_FS_EISDIR, demo_fs)"
    by (simp add: demo_eval)
  note c16 = executors_do_not_catch [THEN conjunct2, THEN conjunct2, THEN conjunct2, THEN conjunct2, THEN conjunct2, THEN conjunct2, THEN conjunct2, THEN conjunct2, THEN conjunct2, THEN conjunct2, THEN conjunct2, THEN conjunct2, THEN conjunct2, THEN conjunct2, THEN conjunct2, THEN conjunct2, THEN conjunct1, THEN mp, OF h16]
  have h17:
     "safe demo_process ''g'' = Inr ''/srv/proj/g'' \<and>
      fs_stat demo_fs ''/srv/proj/g'' = Inr (stats_of (File [] 2)) \<and>
      \<not> isDirectory (stats_of (File [] 2))"
    by (simp add: demo_eval)
  note c17 = executors_do_not_catch [THEN conjunct2, THEN conjunct2, THEN conjunct2, THEN conjunct2, THEN conjunct2, THEN conjunct2, THEN conjunct2, THEN conjunct2, THEN conjunct2, THEN conjunct2, THEN conjunct2, THEN conjunct2, THEN conjunct2, THEN conjunct2, THEN conjunct2, THEN conjunct2, THEN conjunct2, THEN conjunct1, THEN mp, OF h17]
  have h18:
     "fst (execute Fs_mcp_js demo_process demo_sys (Ls None) demo_fs) = Inr (asResult (Entries
        [\<lparr>name = ''a'', type = ''dir'', size = 4096, mtimeMs = 3\<rparr>,
         \<lparr>name = ''g'', type = ''file'', size = 0, mtimeMs = 2\<rparr>]))"
    by (simp add: demo_eval)
  note c18 = executors_do_not_catch [THEN conjunct2, THEN conjunct2, THEN conjunct2, THEN conjunct2, THEN conjunct2, THEN conjunct2, THEN conjunct2, THEN conjunct2, THEN conjunct2, THEN conjunct2, THEN conjunct2, THEN conjunct2, THEN conjunct2, THEN conjunct2, THEN conjunct2, THEN conjunct2, THEN conjunct2, THEN conjunct2, THEN conjunct1, THEN mp, OF h18]
  have h19:
     "fst (execute Fs_mcp_js demo_process demo_sys (ReadFile ''a/f.txt'' None) demo_fs) = Inr (asResult (Str (jsstr ''hi'')))"
    by (simp add: demo_eval)
  note c19 = executors_do_not_catch [THEN conjunct2, THEN conjunct2, THEN conjunct2, THEN conjunct2, THEN conjunct2, THEN conjunct2, THEN conjunct2, THEN conjunct2, THEN conjunct2, THEN conjunct2, THEN conjunct2, THEN conjunct2, THEN conjunct2, THEN conjunct2, THEN conjunct2, THEN conjunct2, THEN conjunct2, THEN conjunct2, THEN conjunct2, THEN conjunct1, THEN mp, OF h19]
  have h20:
     "execute Fs_spec_js demo_process demo_sys (WriteFile ''a/h.txt'' (Some (jsstr ''hello'')) (Some ''utf8'') (Some False)) demo_fs = (Inr (asResult (Str (jsstr ''ok''))), demo_fs_hello)"
    by (simp add: demo_eval)
  note c20 = executors_do_not_catch [THEN conjunct2, THEN conjunct2, THEN conjunct2, THEN conjunct2, THEN conjunct2, THEN conjunct2, THEN conjunct2, THEN conjunct2, THEN conjunct2, THEN conjunct2, THEN conjunct2, THEN conjunct2, THEN conjunct2, THEN conjunct2, THEN conjunct2, THEN conjunct2, THEN conjunct2, THEN conjunct2, THEN conjunct2, THEN conjunct2, THEN conjunct1, THEN mp, OF h20]
  have h21:
     "execute Fs_mcp_js demo_process demo_sys (Mkdir ''b/c'' None) demo_fs = (Inr (asResult (Str (jsstr ''ok''))), demo_fs_bc)"
    by (simp add: demo_eval)
  note c21 = executors_do_not_catch [THEN conjunct2, THEN conjunct2, THEN conjunct2, THEN conjunct2, THEN conjunct2, THEN conjunct2, THEN conjunct2, THEN conjunct2, THEN conjunct2, THEN conjunct2, THEN conjunct2, THEN conjunct2, THEN conjunct2, THEN conjunct2, THEN conjunct2, THEN conjunct2, THEN conjunct2, THEN conjunct2, THEN conjunct2, THEN conjunct2, THEN conjunct2, THEN conjunct1, THEN mp, OF h21]
  have h22:
     "execute Fs_mcp_js demo_process demo_sys (Rename ''g'' ''h'') demo_fs = (Inr (asResult (Str (jsstr ''ok''))), demo_fs_renamed)"
    by (simp add: demo_eval)
  note c22 = executors_do_not_catch [THEN conjunct2, THEN conjunct2, THEN conjunct2, THEN conjunct2, THEN conjunct2, THEN conjunct2, THEN conjunct2, THEN conjunct2, THEN conjunct2, THEN conjunct2, THEN conjunct2, THEN conjunct2, THEN conjunct2, THEN conjunct2, THEN conjunct2, THEN conjunct2, THEN conjunct2, THEN conjunct2, THEN conjunct2, THEN conjunct2, THEN conjunct2, THEN conjunct2, THEN conjunct1, THEN mp, OF h22]
  have h23:
     "execute Fs_mcp_js demo_process demo_sys (Rm ''g'' None) demo_fs = (Inr (asResult (Str (jsstr ''ok''))), demo_fs_removed)"
    by (simp add: demo_eval)
  note c23 = executors_do_not_catch [THEN conjunct2, THEN conjunct2, THEN conjunct2, THEN conjunct2, THEN conjunct2, THEN conjunct2, THEN conjunct2, THEN conjunct2, THEN conjunct2, THEN conjunct2, THEN conjunct2, THEN conjunct2, THEN conjunct2, THEN conjunct2, THEN conjunct2, THEN conjunct2, THEN conjunct2, THEN conjunct2, THEN conjunct2, THEN conjunct2, THEN conjunct2, THEN conjunct2, THEN conjunct2, THEN conjunct1, THEN mp, OF h23]
  have h24:
     "fst (execute Fs_mcp_js demo_process demo_sys (Mkdir ''b/c'' None) demo_fs) = Inr (asResult (Str (jsstr ''ok'')))"
    by (simp add: demo_eval)
  note c24 = executors_do_not_catch [THEN conjunct2, THEN conjunct2, THEN conjunct2, THEN conjunct2, THEN conjunct2, THEN conjunct2, THEN conjunct2, THEN conjunct2, THEN conjunct2, THEN conjunct2, THEN conjunct2, THEN conjunct2, THEN conjunct2, THEN conjunct2, THEN conjunct2, THEN conjunct2, THEN conjunct2, THEN conjunct2, THEN conjunct2, THEN conjunct2, THEN conjunct2, THEN conjunct2, THEN conjunct2, THEN conjunct2, THEN mp, OF h24]
  show ?thesis
    by (intro conjI)
       (rule h0
             c0
             h1 [THEN conjunct1]
             h1 [THEN conjunct2]
             c1
             h2 [THEN conjunct1]
             h2 [THEN conjunct2]
             c2
             h3
             c3
             h4 [THEN conjunct1]
             h4 [THEN conjunct2]
             c4
             c5
             c6
             c7
             h8 [THEN conjunct2]
             c8
             c9
             h10 [THEN conjunct2]
             c10
             c11
             h12 [THEN conjunct1]
             c12
             h13 [THEN conjunct2, THEN conjunct1]
             h13 [THEN conjunct2, THEN conjunct2]
             c13
             c14
             h15 [THEN conjunct2]
             c15
             h16 [THEN conjunct1]
             h16 [THEN conjunct2, THEN conjunct1]
             h16 [THEN conjunct2, THEN conjunct2, THEN conjunct1]
             h16 [THEN conjunct2, THEN conjunct2, THEN conjunct2]
             c16
             h17 [THEN conjunct2, THEN conjunct1]
             h17 [THEN conjunct2, THEN conjunct2]
             c17
             h18
             c18
             h19
             c19
             h20
             c20
             h21
             c21
             h22
             c22
             h23
             c23
             h24
             c24)+
qed

subsection \<open>Removing\<close>

text \<open>
  C5, as claimed: \<open>rm\<close> without \<open>recursive\<close> on a directory that is not empty fails
  with the not-empty error (\<open>ENOTEMPTY\<close>). The program hands the directory to
  \<open>fs.rm\<close>, which refuses any directory without \<open>recursive\<close> as \<open>ERR_FS_EISDIR\<close>:
  the directory \<open>a\<close>, which holds a file, and the empty directory \<open>b/c\<close> alike.
\<close>

theorem rm_nonempty_not_ENOTEMPTY:
  "rm_execute demo_process demo_sys ''a'' (Some False) demo_fs =
     (Inl (SystemError ERR_FS_EISDIR), demo_fs) \<and>
   rm_execute demo_process demo_sys ''a'' (Some False) demo_fs \<noteq>
     (Inl (SystemError ENOTEMPTY), demo_fs) \<and>
   rm_execute demo_process demo_sys ''b/c'' (Some False) demo_fs_bc =
     (Inl (SystemError ERR_FS_EISDIR), demo_fs_bc)"
  by (simp add: rm_execute_def path_eval fs_stat_def fs_rm_def demo_fs_def demo_fs_bc_def)

text \<open>
  C5, amended: for a path that \<open>safe\<close> accepts and that names a directory with at
  least one entry, \<open>rm\<close> without \<open>recursive\<close> (given as false or left out) fails with
  \<open>ERR_FS_EISDIR\<close> and leaves the whole file system, so the directory and all it
  holds, as it was.
\<close>

theorem rm_nonempty_directory_fails_unchanged:
  assumes "safe pr rel = Inr a"
    and "walk fs (components a) = Inr (Dir es sz mt)"
    and "es \<noteq> []"
  shows "rm_execute pr sy rel (Some False) fs = (Inl (SystemError ERR_FS_EISDIR), fs) \<and>
         rm_execute pr sy rel None fs = (Inl (SystemError ERR_FS_EISDIR), fs)"
  using assms by (simp add: rm_execute_def fs_stat_def fs_rm_def)

theorem rm_nonempty_directory_fails_unchanged_witness:
  "safe demo_process ''a'' = Inr ''/srv/proj/a'' \<and>
   walk demo_fs (components ''/srv/proj/a'') = Inr (Dir [(''f.txt'', File [104, 105] 5)] 4096 3) \<and>
   rm_execute demo_process demo_sys ''a'' (Some False) demo_fs =
     (Inl (SystemError ERR_FS_EISDIR), demo_fs) \<and>
   rm_execute demo_process demo_sys ''a'' None demo_fs =
     (Inl (SystemError ERR_FS_EISDIR), demo_fs)"
proof -
  have s: "safe demo_process ''a'' = Inr ''/srv/proj/a''"
    by (simp add: path_eval)
  have w: "walk demo_fs (components ''/srv/proj/a'') =
      Inr (Dir [(''f.txt'', File [104, 105] 5)] 4096 3)"
    by (simp add: components_def demo_fs_def)
  have n: "[(''f.txt'', File [104, 105] 5)] \<noteq> []"
    by simp
  from rm_nonempty_directory_fails_unchanged [OF s w n, of demo_sys] s w
  show ?thesis by simp
qed

subsection \<open>Creating directories\<close>

lemma mkdirp_idem:
  "mkdirp sy p n = Inr n' \<Longrightarrow> mkdirp sy' p n' = Inr n'"
proof (induction sy p n arbitrary: n' rule: mkdirp.induct)
  case (3 sy s ss es sz mt)
  show ?case
  proof (cases "map_of es s")
    case None
    with 3(3) obtain c where c: "mkdirp sy ss (Dir [] (dir_size sy) (now sy)) = Inr c"
      and n': "n' = Dir (es @ [(s, c)]) sz (now sy)"
      by (auto split: sum.splits)
    from 3(1) [OF None c] have "mkdirp sy' ss c = Inr c" .
    moreover have "map_of (es @ [(s, c)]) s = Some c"
      using None by (simp add: map_add_def)
    ultimately show ?thesis
      using n' by (simp add: update_triv)
  next
    case (Some c)
    with 3(3) obtain c' where c: "mkdirp sy ss c = Inr c'"
      and n': "n' = Dir (AList.update s c' es) sz mt"
      by (auto split: sum.splits)
    from 3(2) [OF Some c] have "mkdirp sy' ss c' = Inr c'" .
    then show ?thesis
      using n' by (simp add: update_conv')
  qed
qed (auto split: sum.splits)

lemma mkdirp_walk:
  "mkdirp sy p n = Inr n' \<Longrightarrow> \<exists>es sz mt. walk n' p = Inr (Dir es sz mt)"
proof (induction sy p n arbitrary: n' rule: mkdirp.induct)
  case (3 sy s ss es sz mt)
  show ?case
  proof (cases "map_of es s")
    case None
    with 3(3) obtain c where c: "mkdirp sy ss (Dir [] (dir_size sy) (now sy)) = Inr c"
      and n': "n' = Dir (es @ [(s, c)]) sz (now sy)"
      by (auto split: sum.splits)
    from 3(1) [OF None c] obtain es' sz' mt' where "walk c ss = Inr (Dir es' sz' mt')"
      by blast
    moreover have "map_of (es @ [(s, c)]) s = Some c"
      using None by (simp add: map_add_def)
    ultimately show ?thesis
      using n' by simp
  next
    case (Some c)
    with 3(3) obtain c' where c: "mkdirp sy ss c = Inr c'"
      and n': "n' = Dir (AList.update s c' es) sz mt"
      by (auto split: sum.splits)
    from 3(2) [OF Some c] obtain es' sz' mt' where "walk c' ss = Inr (Dir es' sz' mt')"
      by blast
    then show ?thesis
      using n' by (simp add: update_conv')
  qed
qed (auto split: sum.splits)

lemma alter_mkdir_exists:
  "walk n (s # ss) = Inr m \<Longrightarrow> alter (mkdir_entry sy) t (s # ss) n = Inl EEXIST"
proof (induction ss arbitrary: n s)
  case Nil
  then show ?case
    by (cases n) (auto simp: mkdir_entry_def split: option.splits)
next
  case (Cons s' ss)
  then show ?case
    by (cases n) (auto split: option.splits)
qed

lemma fs_mkdir_exists:
  "walk fs (components p) = Inr m \<Longrightarrow> fs_mkdir sy p False fs = Inl EEXIST"
  by (cases "components p") (auto simp: fs_mkdir_def alter_mkdir_exists)

text \<open>
  C6, as claimed: for every path that \<open>safe\<close> accepts, \<open>mkdir\<close> with \<open>recursive\<close>
  succeeds twice in a row. Where the path names a regular file, the first call already
  fails, with \<open>EEXIST\<close>.
\<close>

theorem mkdir_recursive_on_file_fails:
  "safe demo_process ''g'' = Inr ''/srv/proj/g'' \<and>
   mkdir_execute demo_process demo_sys ''g'' (Some True) demo_fs =
     (Inl (SystemError EEXIST), demo_fs)"
  by (simp add: mkdir_execute_def path_eval fs_mkdir_def demo_fs_def)

text \<open>
  C6, amended: whenever \<open>mkdir\<close> with \<open>recursive\<close> succeeds, a second call right after
  it (at whatever time) succeeds too and leaves the file system exactly as the first
  call left it, with the directory there; and \<open>mkdir\<close> without \<open>recursive\<close> on a path
  that \<open>safe\<close> accepts and that is already a directory fails with \<open>EEXIST\<close> and changes
  nothing.
\<close>

theorem mkdir_twice:
  "(mkdir_execute pr sy rel (Some True) fs = (Inr r, fs1) \<longrightarrow>
      mkdir_execute pr sy' rel (Some True) fs1 = (Inr r, fs1) \<and>
      (\<exists>a es sz mt. safe pr rel = Inr a \<and> walk fs1 (components a) = Inr (Dir es sz mt))) \<and>
   (safe pr rel = Inr b \<and> walk fs2 (components b) = Inr (Dir es2 sz2 mt2) \<longrightarrow>
      mkdir_execute pr sy rel (Some False) fs2 = (Inl (SystemError EEXIST), fs2))"
proof (intro conjI impI)
  assume first: "mkdir_execute pr sy rel (Some True) fs = (Inr r, fs1)"
  then obtain a where a: "safe pr rel = Inr a"
    and m: "mkdirp sy (components a) fs = Inr fs1"
    and r: "r = asResult (Str (jsstr ''ok''))"
    by (auto simp: mkdir_execute_def fs_mkdir_def split: sum.splits)
  from mkdirp_idem [OF m] have again: "mkdirp sy' (components a) fs1 = Inr fs1" .
  from a again r show "mkdir_execute pr sy' rel (Some True) fs1 = (Inr r, fs1)"
    by (simp add: mkdir_execute_def fs_mkdir_def)
  from mkdirp_walk [OF m] a
  show "\<exists>a es sz mt. safe pr rel = Inr a \<and> walk fs1 (components a) = Inr (Dir es sz mt)"
    by blast
next
  assume "safe pr rel = Inr b \<and> walk fs2 (components b) = Inr (Dir es2 sz2 mt2)"
  then have b: "safe pr rel = Inr b" and w: "walk fs2 (components b) = Inr (Dir es2 sz2 mt2)"
    by simp_all
  from fs_mkdir_exists [OF w] b
  show "mkdir_execute pr sy rel (Some False) fs2 = (Inl (SystemError EEXIST), fs2)"
    by (simp add: mkdir_execute_def)
qed

theorem mkdir_twice_witness:
  "mkdir_execute demo_process demo_sys ''b/c'' (Some True) demo_fs =
     (Inr (asResult (Str (jsstr ''ok''))), demo_fs_bc) \<and>
   mkdir_execute demo_process \<lparr>now = 10, dir_size = 512\<rparr> ''b/c'' (Some True) demo_fs_bc =
     (Inr (asResult (Str (jsstr ''ok''))), demo_fs_bc) \<and>
   safe demo_process ''b/c'' = Inr ''/srv/proj/b/c'' \<and>
   walk demo_fs_bc (components ''/srv/proj/b/c'') = Inr (Dir [] 4096 9) \<and>
   mkdir_execute demo_process demo_sys ''b/c'' (Some False) demo_fs_bc =
     (Inl (SystemError EEXIST), demo_fs_bc)"
proof -
  have first: "mkdir_execute demo_process demo_sys ''b/c'' (Some True) demo_fs =
      (Inr (asResult (Str (jsstr ''ok''))), demo_fs_bc)"
    by (simp add: mkdir_execute_def path_eval fs_mkdir_def demo_fs_def demo_fs_bc_def
        demo_sys_def)
  have s: "safe demo_process ''b/c'' = Inr ''/srv/proj/b/c''"
    by (simp add: path_eval)
  have w: "walk demo_fs_bc (components ''/srv/proj/b/c'') = Inr (Dir [] 4096 9)"
    by (simp add: components_def demo_fs_bc_def)
  from mkdir_twice [of demo_process demo_sys "''b/c''" demo_fs "asResult (Str (jsstr ''ok''))"
      demo_fs_bc "\<lparr>now = 10, dir_size = 512\<rparr>" "''/srv/proj/b/c''" demo_fs_bc "[]" 4096 9]
    first s w
  show ?thesis by simp
qed

subsection \<open>Listing\<close>

lemma promise_all_Inr:
  "promise_all ps = Inr xs \<Longrightarrow> length xs = length ps \<and> (\<forall>i<length ps. ps ! i = Inr (xs ! i))"
proof (induction ps arbitrary: xs rule: promise_all.induct)
  case (3 x ps)
  then obtain ys where ys: "promise_all ps = Inr ys" and xs: "xs = x # ys"
    by (auto split: sum.splits)
  from 3(1) [OF ys] show ?case
    using xs by (auto simp: nth_Cons split: nat.splits)
qed auto

lemma statEntry_Inr:
  "statEntry fs p = Inr e \<Longrightarrow>
   \<exists>n. walk fs (components p) = Inr n \<and> name e = basename p \<and>
     type e = (case n of File bs mt \<Rightarrow> ''file'' | Dir es sz mt \<Rightarrow> ''dir''
               | Other sz mt \<Rightarrow> ''other'') \<and>
     size e = st_size (stats_of n) \<and> mtimeMs e = st_mtimeMs (stats_of n)"
  by (auto simp: statEntry_def fs_stat_def split: sum.splits node.splits)

text \<open>
  C7, as claimed: the type of an entry is one of \<open>file\<close>, \<open>directory\<close>, \<open>other\<close>, and a
  child that is a directory is reported as \<open>directory\<close>. \<open>statEntry\<close> writes \<open>dir\<close>:
  listing the root of the example reports its child \<open>a\<close>, a directory, with the type
  \<open>dir\<close>.
\<close>

theorem ls_reports_dir_not_directory:
  "ls_execute demo_process None demo_fs =
     (Inr (asResult (Entries
        [\<lparr>name = ''a'', type = ''dir'', size = 4096, mtimeMs = 3\<rparr>,
         \<lparr>name = ''g'', type = ''file'', size = 0, mtimeMs = 2\<rparr>])), demo_fs) \<and>
   type \<lparr>name = ''a'', type = ''dir'', size = 4096, mtimeMs = 3\<rparr> \<noteq> ''directory''"
  by (simp add: ls_execute_def path_eval fs_readdir_def demo_fs_def statEntry_def fs_stat_def
      path_join_def path_normalize_def basename_def)

text \<open>
  C7, amended: a listing that succeeds holds one entry for each name that \<open>readdir\<close>
  gave, in that order; each entry has the four fields \<open>name\<close>, \<open>type\<close>, \<open>size\<close> and
  \<open>mtimeMs\<close>, taken from the node that the joined path names; the type is one of
  \<open>file\<close>, \<open>dir\<close>, \<open>other\<close>, and it is \<open>dir\<close> for a directory.
\<close>

theorem ls_entries:
  assumes "ls_execute pr path fs = (Inr r, fs')"
  shows "\<exists>a names es.
     safe pr (case path of None \<Rightarrow> ''.'' | Some p \<Rightarrow> p) = Inr a \<and>
     fs_readdir fs a = Inr names \<and>
     content r = [Part ''text'' (JSON_stringify es)] \<and>
     length es = length names \<and>
     (\<forall>e \<in> set es. type e \<in> {''file'', ''dir'', ''other''}) \<and>
     (\<forall>i < length names. \<exists>n.
        walk fs (components (path_join [a, names ! i])) = Inr n \<and>
        name (es ! i) = basename (path_join [a, names ! i]) \<and>
        type (es ! i) = (case n of File bs mt \<Rightarrow> ''file'' | Dir cs sz mt \<Rightarrow> ''dir''
                         | Other sz mt \<Rightarrow> ''other'') \<and>
        size (es ! i) = st_size (stats_of n) \<and>
        mtimeMs (es ! i) = st_mtimeMs (stats_of n))"
proof -
  let ?rel = "case path of None \<Rightarrow> ''.'' | Some p \<Rightarrow> p"
  from assms obtain a names es where a: "safe pr ?rel = Inr a"
    and names: "fs_readdir fs a = Inr names"
    and all: "promise_all (map (\<lambda>n. statEntry fs (path_join [a, n])) names) = Inr es"
    and r: "r = asResult (Entries es)"
    by (auto simp: ls_execute_def Let_def split: sum.splits)
  from promise_all_Inr [OF all]
  have len: "length es = length names"
    and each: "\<And>i. i < length names \<Longrightarrow> statEntry fs (path_join [a, names ! i]) = Inr (es ! i)"
    by auto
  have props: "\<exists>n. walk fs (components (path_join [a, names ! i])) = Inr n \<and>
        name (es ! i) = basename (path_join [a, names ! i]) \<and>
        type (es ! i) = (case n of File bs mt \<Rightarrow> ''file'' | Dir cs sz mt \<Rightarrow> ''dir''
                         | Other sz mt \<Rightarrow> ''other'') \<and>
        size (es ! i) = st_size (stats_of n) \<and>
        mtimeMs (es ! i) = st_mtimeMs (stats_of n)" if "i < length names" for i
    using statEntry_Inr [OF each [OF that]] .
  have types: "type e \<in> {''file'', ''dir'', ''other''}" if "e \<in> set es" for e
  proof -
    from that obtain i where i: "i < length es" and e: "e = es ! i"
      by (auto simp: in_set_conv_nth)
    from props [of i] i len obtain n where
      "type (es ! i) = (case n of File bs mt \<Rightarrow> ''file'' | Dir cs sz mt \<Rightarrow> ''dir''
                        | Other sz mt \<Rightarrow> ''other'')"
      by auto
    then show ?thesis using e by (cases n) auto
  qed
  from a names r len props types show ?thesis
    by (auto simp: asResult_def)
qed

theorem ls_entries_witness:
  "ls_execute demo_process (Some ''a'') demo_fs =
     (Inr (asResult (Entries [\<lparr>name = ''f.txt'', type = ''file'', size = 2, mtimeMs = 5\<rparr>])),
      demo_fs) \<and>
   (\<exists>a names es.
     safe demo_process ''a'' = Inr a \<and>
     fs_readdir demo_fs a = Inr names \<and>
     content (asResult (Entries [\<lparr>name = ''f.txt'', type = ''file'', size = 2, mtimeMs = 5\<rparr>])) =
       [Part ''text'' (JSON_stringify es)] \<and>
     length es = length names \<and>
     (\<forall>e \<in> set es. type e \<in> {''file'', ''dir'', ''other''}))"
proof -
  have h: "ls_execute demo_process (Some ''a'') demo_fs =
     (Inr (asResult (Entries [\<lparr>name = ''f.txt'', type = ''file'', size = 2, mtimeMs = 5\<rparr>])),
      demo_fs)"
    by (simp add: ls_execute_def path_eval fs_readdir_def demo_fs_def statEntry_def fs_stat_def
        path_join_def path_normalize_def basename_def numeral_2_eq_2)
  from ls_entries [OF h] h show ?thesis
    by (simp only: option.case) blast
qed

subsection \<open>The encoding parameter\<close>

text \<open>
  C8. The claim is that a raw encoding \<open>utf-8\<close> is turned into \<open>utf8\<close> by the
  validation of \<open>readFile\<close> and \<open>writeFile\<close>. The shapes of \<open>fs-spec.js\<close> list
  \<open>utf8\<close> and \<open>base64\<close> only: their schema rejects \<open>utf-8\<close>, and the call ends with
  that error. The \<open>Encoding\<close> of \<open>fs.mcp.js\<close> does what the claim says
  (shown among the further properties).
\<close>

theorem ReadFileShape_rejects_utf_8:
  "ReadFileShape_encoding (Some (RString ''utf-8'')) = Inl (ZodError ''invalid_enum_value'') \<and>
   readFile_call ReadFileShape_encoding demo_process ''a/f.txt'' (Some (RString ''utf-8'')) demo_fs =
     (Inl (ZodError ''invalid_enum_value''), demo_fs)"
  by (simp add: readFile_call_def ReadFileShape_encoding_def z_enum_def)

subsection \<open>UTF-8: decoding what was encoded\<close>

lemma utf8_dec_1: "x < 128 \<Longrightarrow> utf8_dec None (x # rest) = x # utf8_dec None rest"
  by (simp add: utf8_lead_def)

lemma utf8_dec_2:
  "2 \<le> x \<Longrightarrow> x < 32 \<Longrightarrow> y < 64 \<Longrightarrow>
   utf8_dec None ((192 + x) # (128 + y) # rest) = (x * 64 + y) # utf8_dec None rest"
  by (simp add: utf8_lead_def)

lemma utf8_dec_3:
  "x < 16 \<Longrightarrow> y < 64 \<Longrightarrow> z < 64 \<Longrightarrow> (x = 0 \<longrightarrow> 32 \<le> y) \<Longrightarrow> (x = 13 \<longrightarrow> y < 32) \<Longrightarrow>
   utf8_dec None ((224 + x) # (128 + y) # (128 + z) # rest) =
     ((x * 64 + y) * 64 + z) # utf8_dec None rest"
  by (auto simp: utf8_lead_def)

lemma utf8_dec_4:
  "x < 5 \<Longrightarrow> y < 64 \<Longrightarrow> z < 64 \<Longrightarrow> w < 64 \<Longrightarrow> (x = 0 \<longrightarrow> 16 \<le> y) \<Longrightarrow> (x = 4 \<longrightarrow> y < 16) \<Longrightarrow>
   utf8_dec None ((240 + x) # (128 + y) # (128 + z) # (128 + w) # rest) =
     (((x * 64 + y) * 64 + z) * 64 + w) # utf8_dec None rest"
  by (auto simp: utf8_lead_def)

lemma radix64_2: "(c::nat) = q * 64 + r \<Longrightarrow> q = p * 64 + s \<Longrightarrow> c = p * 4096 + s * 64 + r"
  by linarith

lemma radix64_3:
  "(c::nat) = q * 64 + r \<Longrightarrow> q = p * 64 + s \<Longrightarrow> p = t * 64 + u \<Longrightarrow>
   c = t * 262144 + u * 4096 + s * 64 + r"
  by linarith

lemma digits64_2:
  fixes c :: nat
  obtains q r where "c = q * 64 + r" "r < 64" "c div 64 = q" "c mod 64 = r"
proof (rule that [of "c div 64" "c mod 64"])
  show "c = c div 64 * 64 + c mod 64" by simp
qed simp_all

lemma digits64_3:
  fixes c :: nat
  obtains p s r where "c = p * 4096 + s * 64 + r" "s < 64" "r < 64"
    "c div 4096 = p" "c div 64 mod 64 = s" "c mod 64 = r"
proof (rule that [of "c div 4096" "c div 64 mod 64" "c mod 64"])
  have 1: "c = c div 64 * 64 + c mod 64" by simp
  have 2: "c div 64 = c div 64 div 64 * 64 + c div 64 mod 64" by simp
  have 3: "c div 4096 = c div 64 div 64" by (simp add: div_mult2_eq)
  show "c = c div 4096 * 4096 + c div 64 mod 64 * 64 + c mod 64"
    unfolding 3 by (rule radix64_2 [OF 1 2])
qed simp_all

lemma digits64_4:
  fixes c :: nat
  obtains t p s r where "c = t * 262144 + p * 4096 + s * 64 + r" "p < 64" "s < 64" "r < 64"
    "c div 262144 = t" "c div 4096 mod 64 = p" "c div 64 mod 64 = s" "c mod 64 = r"
proof (rule that [of "c div 262144" "c div 4096 mod 64" "c div 64 mod 64" "c mod 64"])
  have 1: "c = c div 64 * 64 + c mod 64" by simp
  have 2: "c div 64 = c div 64 div 64 * 64 + c div 64 mod 64" by simp
  have 3: "c div 64 div 64 = c div 64 div 64 div 64 * 64 + c div 64 div 64 mod 64" by simp
  have 4: "c div 4096 = c div 64 div 64" by (simp add: div_mult2_eq)
  have 5: "c div 262144 = c div 64 div 64 div 64" by (simp add: div_mult2_eq)
  show "c = c div 262144 * 262144 + c div 4096 mod 64 * 4096 + c div 64 mod 64 * 64 + c mod 64"
    unfolding 4 5 by (rule radix64_3 [OF 1 2 3])
qed simp_all

lemma utf8_dec_bytes:
  assumes "scalar c"
  shows "utf8_dec None (utf8_bytes c @ rest) = c # utf8_dec None rest \<and>
         (\<forall>b \<in> set (utf8_bytes c). b < 256)"
proof -
  consider "c < 128" | "128 \<le> c" "c < 2048" | "2048 \<le> c" "c < 65536" | "65536 \<le> c"
    by linarith
  then show ?thesis
  proof cases
    case 1
    then show ?thesis by (simp add: utf8_bytes_def utf8_lead_def)
  next
    case 2
    obtain q r where c: "c = q * 64 + r" and r: "r < 64"
      and d: "c div 64 = q" "c mod 64 = r"
      by (rule digits64_2)
    from 2 c r have q: "2 \<le> q" "q < 32" by linarith+
    have bytes: "utf8_bytes c = [192 + q, 128 + r]"
      using 2 d by (simp add: utf8_bytes_def)
    from utf8_dec_2 [OF q r, of rest] bytes c q r show ?thesis by simp
  next
    case 3
    obtain p s r where c: "c = p * 4096 + s * 64 + r" and s: "s < 64" and r: "r < 64"
      and d: "c div 4096 = p" "c div 64 mod 64 = s" "c mod 64 = r"
      by (rule digits64_3)
    from assms have ns: "\<not> (55296 \<le> c \<and> c \<le> 57343)" by (simp add: scalar_def)
    from 3 c s r have p: "p < 16" by linarith
    from 3 c s r have lo: "p = 0 \<longrightarrow> 32 \<le> s" by linarith
    from ns c s r have hi: "p = 13 \<longrightarrow> s < 32" by linarith
    have bytes: "utf8_bytes c = [224 + p, 128 + s, 128 + r]"
      using 3 d by (simp add: utf8_bytes_def)
    have "(p * 64 + s) * 64 + r = p * 4096 + s * 64 + r" by (simp add: algebra_simps)
    then have "(p * 64 + s) * 64 + r = c" using c by simp
    with utf8_dec_3 [OF p s r lo hi, of rest] bytes p s r show ?thesis by simp
  next
    case 4
    obtain t p s r where c: "c = t * 262144 + p * 4096 + s * 64 + r"
      and p: "p < 64" and s: "s < 64" and r: "r < 64"
      and d: "c div 262144 = t" "c div 4096 mod 64 = p" "c div 64 mod 64 = s" "c mod 64 = r"
      by (rule digits64_4)
    from assms have lt: "c < 1114112" by (simp add: scalar_def)
    from lt c p s r have t: "t < 5" by linarith
    from 4 c p s r have lo: "t = 0 \<longrightarrow> 16 \<le> p" by linarith
    from lt c p s r have hi: "t = 4 \<longrightarrow> p < 16" by linarith
    have bytes: "utf8_bytes c = [240 + t, 128 + p, 128 + s, 128 + r]"
      using 4 d by (simp add: utf8_bytes_def)
    have "((t * 64 + p) * 64 + s) * 64 + r = t * 262144 + p * 4096 + s * 64 + r"
      by (simp add: algebra_simps)
    then have "((t * 64 + p) * 64 + s) * 64 + r = c" using c by simp
    with utf8_dec_4 [OF t p s r lo hi, of rest] bytes t p s r show ?thesis by simp
  qed
qed

lemma utf8_dec_concat:
  "\<forall>c \<in> set cs. scalar c \<Longrightarrow> utf8_dec None (concat (map utf8_bytes cs)) = cs"
  by (induction cs) (simp_all add: utf8_dec_bytes)

lemma surrogate_pair:
  fixes u v :: nat
  assumes "55296 \<le> u" "u \<le> 56319" "56320 \<le> v" "v \<le> 57343"
  shows "utf16_units (65536 + (u - 55296) * 1024 + (v - 56320)) = [u, v] \<and>
         scalar (65536 + (u - 55296) * 1024 + (v - 56320))"
proof -
  from assms(1) obtain h where u: "u = 55296 + h" by (auto simp: le_iff_add)
  from assms(3) obtain l where v: "v = 56320 + l" by (auto simp: le_iff_add)
  from assms(2) u have h: "h < 1024" by linarith
  from assms(4) v have l: "l < 1024" by linarith
  have c: "65536 + (u - 55296) * 1024 + (v - 56320) = 65536 + (h * 1024 + l)"
    using u v by simp
  have "(h * 1024 + l) div 1024 = h" "(h * 1024 + l) mod 1024 = l"
    using l by simp_all
  then have "utf16_units (65536 + (h * 1024 + l)) = [u, v]"
    using u v by (simp add: utf16_units_def)
  moreover have "scalar (65536 + (h * 1024 + l))"
    using h l by (simp add: scalar_def)
  ultimately show ?thesis
    unfolding c by simp
qed

lemma code_points_units:
  "well_formed_units us \<Longrightarrow> \<forall>u \<in> set us. u < 65536 \<Longrightarrow>
   concat (map utf16_units (code_points us)) = us \<and> (\<forall>c \<in> set (code_points us). scalar c)"
proof (induction us rule: code_points.induct)
  case 1
  then show ?case by simp
next
  case (2 u)
  then show ?case by (simp add: utf16_units_def scalar_def)
next
  case (3 u v us)
  show ?case
  proof (cases "55296 \<le> u \<and> u \<le> 56319 \<and> 56320 \<le> v \<and> v \<le> 57343")
    case True
    then have pair: "utf16_units (65536 + (u - 55296) * 1024 + (v - 56320)) = [u, v]"
        "scalar (65536 + (u - 55296) * 1024 + (v - 56320))"
      using surrogate_pair [of u v] by simp_all
    from 3(1) [OF True] 3(3,4) True
    have "concat (map utf16_units (code_points us)) = us \<and> (\<forall>c \<in> set (code_points us). scalar c)"
      by simp
    moreover have "code_points (u # v # us) =
        (65536 + (u - 55296) * 1024 + (v - 56320)) # code_points us"
      using True by simp
    ultimately show ?thesis using pair by simp
  next
    case False
    with 3(3) have nu: "\<not> (55296 \<le> u \<and> u \<le> 57343)" and wf: "well_formed_units (v # us)"
      by simp_all
    from 3(2) [OF False wf] 3(4)
    have "concat (map utf16_units (code_points (v # us))) = v # us \<and>
        (\<forall>c \<in> set (code_points (v # us)). scalar c)"
      by simp
    moreover have "utf16_units u = [u]" "scalar u"
      using 3(4) nu by (simp_all add: utf16_units_def scalar_def)
    moreover have "code_points (u # v # us) = u # code_points (v # us)"
      using False nu by simp
    ultimately show ?thesis by simp
  qed
qed

lemma unat_unit_less: "unat (u :: 16 word) < 65536"
  using unsigned_less [of u, where ?'a = nat] by simp

lemma utf8_roundtrip:
  assumes "isWellFormed data"
  shows "toString_utf8 (Buffer_from_utf8 data) = data"
proof -
  let ?us = "map unat data"
  let ?cs = "code_points ?us"
  let ?bs = "concat (map utf8_bytes ?cs)"
  have units: "\<forall>u \<in> set ?us. u < 65536"
    by (auto simp: unat_unit_less)
  from assms have wf: "well_formed_units ?us"
    by (simp add: isWellFormed_def)
  from code_points_units [OF wf units]
  have units_back: "concat (map utf16_units ?cs) = ?us" and sc: "\<forall>c \<in> set ?cs. scalar c"
    by simp_all
  have small: "\<forall>b \<in> set ?bs. b < 256"
    using sc utf8_dec_bytes by auto
  have "map unat (map of_nat ?bs :: 8 word list) = map (\<lambda>b. b) ?bs"
    unfolding map_map
  proof (rule map_cong [OF refl])
    fix b assume "b \<in> set ?bs"
    with small have "b < 256" by blast
    then show "(unat \<circ> (of_nat :: nat \<Rightarrow> 8 word)) b = b"
      by (simp add: unat_of_nat)
  qed
  then have "map unat (map of_nat ?bs :: 8 word list) = ?bs"
    by simp
  then have "toString_utf8 (Buffer_from_utf8 data) =
      map of_nat (concat (map utf16_units (utf8_dec None ?bs)))"
    by (simp add: toString_utf8_def Buffer_from_utf8_def)
  also have "\<dots> = map of_nat ?us"
    by (simp add: utf8_dec_concat [OF sc] units_back)
  also have "\<dots> = data"
    by (simp add: map_idI)
  finally show ?thesis .
qed

subsection \<open>Base64: decoding what was encoded, and what the decoder skips\<close>



lemma unbase64_char: "v < 64 \<Longrightarrow> unbase64 (base64_char v) = Some v"
  by (auto simp: unbase64_def base64_char_def)

lemma base64_char_less: "v < 64 \<Longrightarrow> base64_char v < 128"
  by (auto simp: base64_char_def)

lemma unbase64_pad: "unbase64 61 = None"
  by (simp add: unbase64_def)

lemma base64_roundtrip_nat:
  "\<forall>b \<in> set bs. b < 256 \<Longrightarrow> base64_bytes (base64_sextets (base64_encode bs)) = bs"
proof (induction bs rule: base64_encode.induct)
  case 1
  then show ?case by simp
next
  case (2 a)
  then have a: "a < 256" by simp
  have "a div 4 < 64" "a mod 4 * 16 < 64" using a by auto
  then show ?case using a
    by (simp add: unbase64_char unbase64_pad)
next
  case (3 a b)
  then have a: "a < 256" and b: "b < 256" by simp_all
  have "a div 4 < 64" "a mod 4 * 16 + b div 16 < 64" "b mod 16 * 4 < 64" using a b by auto
  moreover have "a div 4 * 4 + (a mod 4 * 16 + b div 16) div 16 = a" using b by auto
  moreover have "(a mod 4 * 16 + b div 16) mod 16 * 16 + b mod 16 * 4 div 4 = b" using b by auto
  ultimately show ?case
    by (simp add: unbase64_char unbase64_pad)
next
  case (4 a b c bs)
  then have a: "a < 256" and b: "b < 256" and c: "c < 256" and rest: "\<forall>b \<in> set bs. b < 256" by simp_all
  have "a div 4 < 64" "a mod 4 * 16 + b div 16 < 64" "b mod 16 * 4 + c div 64 < 64" "c mod 64 < 64" using a b c by auto
  moreover have "a div 4 * 4 + (a mod 4 * 16 + b div 16) div 16 = a" using b by auto
  moreover have "(a mod 4 * 16 + b div 16) mod 16 * 16 + (b mod 16 * 4 + c div 64) div 4 = b" using b c by auto
  moreover have "(b mod 16 * 4 + c div 64) mod 4 * 64 + c mod 64 = c" using c by auto
  ultimately show ?case using 4(1) [OF rest]
    by (simp add: unbase64_char)
qed

lemma base64_encode_less: "\<forall>b \<in> set bs. b < 256 \<Longrightarrow> \<forall>c \<in> set (base64_encode bs). c < 128"
proof (induction bs rule: base64_encode.induct)
  case (2 a)
  then have a: "a < 256" by simp
  have "a div 4 < 64" "a mod 4 * 16 < 64" using a by auto
  then show ?case by (simp add: base64_char_less)
next
  case (3 a b)
  then have a: "a < 256" and b: "b < 256" by simp_all
  have "a div 4 < 64" "a mod 4 * 16 + b div 16 < 64" "b mod 16 * 4 < 64" using a b by auto
  then show ?case by (simp add: base64_char_less)
next
  case (4 a b c bs)
  then have a: "a < 256" and b: "b < 256" and c: "c < 256" and rest: "\<forall>b \<in> set bs. b < 256" by simp_all
  have "a div 4 < 64" "a mod 4 * 16 + b div 16 < 64" "b mod 16 * 4 + c div 64 < 64" "c mod 64 < 64" using a b c by auto
  then show ?case using 4(1) [OF rest] by (simp add: base64_char_less)
qed simp

lemma unat_byte_less: "unat (b :: 8 word) < 256"
  using unsigned_less [of b, where ?'a = nat] by simp

lemma base64_roundtrip: "Buffer_from_base64 (toString_base64 buf) = buf"
proof -
  let ?ns = "map unat buf"
  have bytes: "\<forall>b \<in> set ?ns. b < 256" by (auto simp: unat_byte_less)
  have "map (\<lambda>u. unat u mod 256) (map of_nat (base64_encode ?ns) :: 16 word list) = base64_encode ?ns"
  proof -
    have "unat (of_nat c :: 16 word) mod 256 = c" if "c \<in> set (base64_encode ?ns)" for c
    proof -
      from base64_encode_less [OF bytes] that have "c < 128" by blast
      then show ?thesis by (simp add: unat_of_nat)
    qed
    then show ?thesis by (simp add: map_idI)
  qed
  then have "Buffer_from_base64 (toString_base64 buf) = map of_nat (base64_bytes (base64_sextets (base64_encode ?ns)))"
    by (simp add: Buffer_from_base64_def toString_base64_def)
  also have "\<dots> = map of_nat ?ns"
    by (simp add: base64_roundtrip_nat [OF bytes])
  also have "\<dots> = buf"
    by (simp add: map_idI)
  finally show ?thesis .
qed

lemma alter_write_walk:
  "alter (write_entry sy buf False) t (s # ss) n = Inr n' \<Longrightarrow> walk n' (s # ss) = Inr (File buf (now sy))"
proof (induction ss arbitrary: n n' s)
  case Nil
  then show ?case
    by (cases n) (auto simp: write_entry_def update_conv' split: option.splits node.splits sum.splits if_splits)
next
  case (Cons s' ss)
  then show ?case
    by (cases n) (auto simp: update_conv' split: option.splits sum.splits)
qed

lemma fs_write_read:
  "fs_writeFile sy p buf False fs = Inr fs1 \<Longrightarrow> fs_readFile fs1 p = Inr buf"
  by (cases "components p") (auto simp: fs_writeFile_def fs_readFile_def alter_write_walk split: node.splits)

subsection \<open>Writing, then reading\<close>

text \<open>
  C4, as claimed: for every path that \<open>safe\<close> accepts and every string, writing the
  string as \<open>utf8\<close> and reading it back gives the string. A surrogate on its own is
  written as U+FFFD, so the string that consists of the unit D800 reads back as the
  unit FFFD; and where the path names a directory nothing is written at all.
\<close>

theorem write_read_differs:
  "fst (writeFile_execute demo_process demo_sys ''n.txt'' (Some [0xD800]) (Some ''utf8'')
         (Some False) demo_fs) = Inr (asResult (Str (jsstr ''ok''))) \<and>
   fst (readFile_execute demo_process ''n.txt'' (Some ''utf8'')
         (snd (writeFile_execute demo_process demo_sys ''n.txt'' (Some [0xD800]) (Some ''utf8'')
                (Some False) demo_fs))) = Inr (asResult (Str [0xFFFD])) \<and>
   [0xFFFD] \<noteq> [0xD800 :: 16 word] \<and>
   writeFile_execute demo_process demo_sys ''a'' (Some (jsstr ''x'')) (Some ''utf8'')
     (Some False) demo_fs = (Inl (SystemError EISDIR), demo_fs)"
  by (simp add: writeFile_execute_def readFile_execute_def path_eval fs_writeFile_def
      fs_readFile_def write_entry_def demo_fs_def demo_sys_def Buffer_from_utf8_def
      utf8_bytes_def toString_utf8_def utf8_lead_def utf16_units_def jsstr_def)

text \<open>
  C4, amended: whenever \<open>writeFile\<close> with \<open>encoding = utf8\<close> and \<open>append = false\<close>
  succeeds and the string written is well formed, \<open>readFile\<close> of the same path with
  \<open>utf8\<close> returns exactly that string; and whenever \<open>writeFile\<close> with
  \<open>encoding = base64\<close> and \<open>append = false\<close> succeeds and the payload is the base64
  text of some bytes (as \<open>toString('base64')\<close> writes it), \<open>readFile\<close> with \<open>base64\<close>
  returns exactly that payload.
\<close>

theorem write_then_read:
  "(writeFile_execute pr sy rel (Some data) (Some ''utf8'') (Some False) fs = (Inr r, fs1) \<and>
    isWellFormed data \<longrightarrow>
      readFile_execute pr rel (Some ''utf8'') fs1 = (Inr (asResult (Str data)), fs1)) \<and>
   (writeFile_execute pr sy rel' (Some (toString_base64 buf)) (Some ''base64'') (Some False) fs'
      = (Inr r', fs2) \<longrightarrow>
      readFile_execute pr rel' (Some ''base64'') fs2 =
        (Inr (asResult (Str (toString_base64 buf))), fs2))"
proof (intro conjI impI)
  assume "writeFile_execute pr sy rel (Some data) (Some ''utf8'') (Some False) fs = (Inr r, fs1) \<and>
    isWellFormed data"
  then have w: "writeFile_execute pr sy rel (Some data) (Some ''utf8'') (Some False) fs = (Inr r, fs1)"
    and wf: "isWellFormed data"
    by simp_all
  from w obtain a where a: "safe pr rel = Inr a"
    and f: "fs_writeFile sy a (Buffer_from_utf8 data) False fs = Inr fs1"
    by (auto simp: writeFile_execute_def Let_def split: sum.splits)
  from fs_write_read [OF f] a utf8_roundtrip [OF wf]
  show "readFile_execute pr rel (Some ''utf8'') fs1 = (Inr (asResult (Str data)), fs1)"
    by (simp add: readFile_execute_def)
next
  assume w: "writeFile_execute pr sy rel' (Some (toString_base64 buf)) (Some ''base64'')
      (Some False) fs' = (Inr r', fs2)"
  then obtain a where a: "safe pr rel' = Inr a"
    and f: "fs_writeFile sy a (Buffer_from_base64 (toString_base64 buf)) False fs' = Inr fs2"
    by (auto simp: writeFile_execute_def Let_def split: sum.splits)
  from fs_write_read [OF f] a
  show "readFile_execute pr rel' (Some ''base64'') fs2 =
      (Inr (asResult (Str (toString_base64 buf))), fs2)"
    by (simp add: readFile_execute_def base64_roundtrip)
qed

lemma demo_write_utf8:
  "writeFile_execute demo_process demo_sys ''a/h.txt'' (Some (jsstr ''hello'')) (Some ''utf8'')
     (Some False) demo_fs =
   (Inr (asResult (Str (jsstr ''ok''))),
    Dir [(''srv'',
          Dir [(''proj'',
                Dir [(''a'', Dir [(''f.txt'', File [104, 105] 5),
                                  (''h.txt'', File [104, 101, 108, 108, 111] 9)] 4096 9),
                     (''g'', File [] 2)] 4096 1),
               (''proj-secret'', Dir [(''x'', File [104, 105] 2)] 4096 1)] 4096 0)] 4096 0)"
  by (simp add: writeFile_execute_def path_eval fs_writeFile_def write_entry_def demo_fs_def
      demo_sys_def Buffer_from_utf8_def utf8_bytes_def jsstr_def)

lemma demo_base64_text: "toString_base64 [104, 101, 108, 108, 111] = jsstr ''aGVsbG8=''"
  by (simp add: toString_base64_def base64_char_def jsstr_def)

lemma demo_write_base64:
  "writeFile_execute demo_process demo_sys ''x.bin'' (Some (jsstr ''aGVsbG8='')) (Some ''base64'')
     (Some False) demo_fs =
   (Inr (asResult (Str (jsstr ''ok''))),
    Dir [(''srv'',
          Dir [(''proj'',
                Dir [(''a'', Dir [(''f.txt'', File [104, 105] 5)] 4096 3),
                     (''g'', File [] 2),
                     (''x.bin'', File [104, 101, 108, 108, 111] 9)] 4096 9),
               (''proj-secret'', Dir [(''x'', File [104, 105] 2)] 4096 1)] 4096 0)] 4096 0)"
  by (simp add: writeFile_execute_def path_eval fs_writeFile_def write_entry_def demo_fs_def
      demo_sys_def Buffer_from_base64_def unbase64_def jsstr_def)

lemma demo_well_formed: "isWellFormed (jsstr ''hello'')"
  by (simp add: isWellFormed_def jsstr_def)

theorem write_then_read_witness:
  "isWellFormed (jsstr ''hello'') \<and>
   fst (writeFile_execute demo_process demo_sys ''a/h.txt'' (Some (jsstr ''hello'')) (Some ''utf8'')
         (Some False) demo_fs) = Inr (asResult (Str (jsstr ''ok''))) \<and>
   fst (readFile_execute demo_process ''a/h.txt'' (Some ''utf8'')
         (snd (writeFile_execute demo_process demo_sys ''a/h.txt'' (Some (jsstr ''hello''))
                (Some ''utf8'') (Some False) demo_fs))) = Inr (asResult (Str (jsstr ''hello''))) \<and>
   fst (writeFile_execute demo_process demo_sys ''x.bin'' (Some (jsstr ''aGVsbG8=''))
         (Some ''base64'') (Some False) demo_fs) = Inr (asResult (Str (jsstr ''ok''))) \<and>
   fst (readFile_execute demo_process ''x.bin'' (Some ''base64'')
         (snd (writeFile_execute demo_process demo_sys ''x.bin'' (Some (jsstr ''aGVsbG8=''))
                (Some ''base64'') (Some False) demo_fs))) = Inr (asResult (Str (jsstr ''aGVsbG8='')))"
proof -
  note w1 = demo_write_utf8
  note w2 = demo_write_base64 [folded demo_base64_text]
  from write_then_read [THEN conjunct1, rule_format, OF conjI [OF w1 demo_well_formed]]
  have r1: "fst (readFile_execute demo_process ''a/h.txt'' (Some ''utf8'')
         (snd (writeFile_execute demo_process demo_sys ''a/h.txt'' (Some (jsstr ''hello''))
                (Some ''utf8'') (Some False) demo_fs))) = Inr (asResult (Str (jsstr ''hello'')))"
    by (simp add: w1)
  from write_then_read [THEN conjunct2, rule_format, OF w2]
  have r2: "fst (readFile_execute demo_process ''x.bin'' (Some ''base64'')
         (snd (writeFile_execute demo_process demo_sys ''x.bin'' (Some (jsstr ''aGVsbG8=''))
                (Some ''base64'') (Some False) demo_fs))) = Inr (asResult (Str (jsstr ''aGVsbG8='')))"
    by (simp add: demo_write_base64 demo_base64_text)
  from r1 r2 demo_well_formed show ?thesis
    by (simp add: w1 demo_write_base64)
qed

subsection \<open>Malformed base64\<close>





lemma writeFile_base64_malformed_example:
  "Buffer_from_base64 (jsstr ''aG!k?'') = [104, 105] \<and>
   Buffer_from_base64 (jsstr ''%%%'') = []"
  by (simp add: Buffer_from_base64_def unbase64_def jsstr_def)

subsection \<open>Further properties\<close>

text \<open>
  What \<open>safe\<close> does guarantee: a path it returns starts with \<open>ROOT\<close> as a string, and
  the only error it raises is the path-escape error.
\<close>

theorem safe_result:
  "(case safe pr rel of
      Inl e \<Rightarrow> e = Error ''Path escapes project root''
    | Inr a \<Rightarrow> startsWith a (ROOT pr) \<and> a = path_resolve (cwd pr) [ROOT pr, rel])"
  by (simp add: safe_def Let_def)

text \<open>
  When \<open>safe\<close> rejects the path, \<open>readFile\<close> fails with that error whatever the file
  system holds, and leaves it as it is: the rejection comes before any call of
  \<open>node:fs\<close>.
\<close>

theorem readFile_rejected_path:
  "safe pr rel = Inl e \<Longrightarrow> readFile_execute pr rel encoding fs = (Inl e, fs)"
  by (simp add: readFile_execute_def)

theorem readFile_rejected_path_witness:
  "safe demo_process ''../outside.txt'' = Inl (Error ''Path escapes project root'') \<and>
   readFile_execute demo_process ''../outside.txt'' (Some ''utf8'') demo_fs =
     (Inl (Error ''Path escapes project root''), demo_fs) \<and>
   readFile_execute demo_process ''../outside.txt'' (Some ''utf8'') (Dir [] 0 0) =
     (Inl (Error ''Path escapes project root''), Dir [] 0 0)"
proof -
  have s: "safe demo_process ''../outside.txt'' = Inl (Error ''Path escapes project root'')"
    by (simp add: path_eval)
  from readFile_rejected_path [OF s, of "Some ''utf8''" demo_fs]
    readFile_rejected_path [OF s, of "Some ''utf8''" "Dir [] 0 0"] s
  show ?thesis by simp
qed

text \<open>
  The \<open>Encoding\<close> schema of \<open>fs.mcp.js\<close> turns the raw value \<open>utf-8\<close> into \<open>utf8\<close>,
  so that \<open>readFile\<close> and \<open>writeFile\<close> called with it behave as with \<open>utf8\<close>.
\<close>

theorem Encoding_utf_8_alias:
  "Encoding_optional (Some (RString ''utf-8'')) = Inr (Some ''utf8'') \<and>
   readFile_call Encoding_optional pr rel (Some (RString ''utf-8'')) fs =
     readFile_execute pr rel (Some ''utf8'') fs \<and>
   writeFile_call Encoding_optional pr sy rel data (Some (RString ''utf-8'')) append_flag fs =
     writeFile_execute pr sy rel data (Some ''utf8'') append_flag fs"
  by (simp add: readFile_call_def writeFile_call_def Encoding_optional_def Encoding_def z_enum_def)

text \<open>
  \<open>rm\<close> without \<open>recursive\<close> never removes a directory, empty or not: it fails with
  \<open>ERR_FS_EISDIR\<close> and changes nothing.
\<close>

theorem rm_directory_without_recursive:
  "safe pr rel = Inr a \<Longrightarrow> walk fs (components a) = Inr (Dir es sz mt) \<Longrightarrow>
   rm_execute pr sy rel (Some False) fs = (Inl (SystemError ERR_FS_EISDIR), fs)"
  by (simp add: rm_execute_def fs_stat_def fs_rm_def)

theorem rm_directory_without_recursive_witness:
  "safe demo_process ''b/c'' = Inr ''/srv/proj/b/c'' \<and>
   walk demo_fs_bc (components ''/srv/proj/b/c'') = Inr (Dir [] 4096 9) \<and>
   rm_execute demo_process demo_sys ''b/c'' (Some False) demo_fs_bc =
     (Inl (SystemError ERR_FS_EISDIR), demo_fs_bc)"
proof -
  have s: "safe demo_process ''b/c'' = Inr ''/srv/proj/b/c''"
    by (simp add: path_eval)
  have w: "walk demo_fs_bc (components ''/srv/proj/b/c'') = Inr (Dir [] 4096 9)"
    by (simp add: components_def demo_fs_bc_def)
  from rm_directory_without_recursive [OF s w, of demo_sys] s w show ?thesis
    by simp
qed

end
